theory Spec2Isabelle
  imports Complex_Main "HOL-Library.AList"
begin

section \<open>Python values, exceptions and the outside world\<close>

text \<open>
  The values \<open>json.loads\<close> produces. A JSON object is the list of its items in
  insertion order. Floats are only ever copied by the parsers; they are modelled by the
  number they denote.
\<close>

datatype json =
    JNull
  | JBool bool
  | JInt int
  | JFloat real
  | JStr string
  | JArr "json list"
  | JObj "(string \<times> json) list"

text \<open>
  Why \<open>json.loads\<close> rejects a byte string: it is not JSON text, it is not text in
  the encoding \<open>json.loads\<close> detects (UTF-8, UTF-16 or UTF-32), it holds an integer
  of more digits than the interpreter converts, or it is nested deeper than the
  interpreter recurses.
\<close>

datatype decode_failure = NotJson | NotUtf8 | IntTooLong | TooDeep

text \<open>
  A byte string, seen through \<open>json.loads\<close>: either it is JSON text, represented
  by the value it decodes to, or \<open>json.loads\<close> rejects it, for the reason given.
  \<open>json.dumps\<close> of a value is the text of that value.
\<close>

datatype bytes = JsonText json | Undecodable string decode_failure

text \<open>
  The exception classes that occur. \<open>OSError\<close> stands for the class and its
  subclasses (\<open>IOError\<close> is the same class); \<open>AMQPError\<close> for
  \<open>pika.exceptions.AMQPError\<close> and its subclasses, which are the six classes that
  \<open>run_parser_service\<close> catches.
\<close>

datatype py_error =
    JSONDecodeError
  | UnicodeDecodeError
  | RecursionError
  | KeyError string
  | TypeError
  | ValueError
  | OSError string
  | AMQPError string
  | NameError string
  | SystemExit int

datatype level = DEBUG | ERROR

text \<open>An argument of \<open>str.format\<close>: a value or a caught exception.\<close>

datatype arg = Val json | Exc py_error

text \<open>
  Calls into the file system and the imaging libraries, and calls into the broker client.
  \<open>Open path mode\<close> is \<open>open(path, mode)\<close> together with the
  \<open>read()\<close> of the handle; \<open>Save path w h data\<close> is \<open>img.save(path)\<close>
  of the image built from \<open>data\<close>; \<open>Savefig path rows\<close> is
  \<open>plt.savefig(path)\<close> after \<open>Imshow rows\<close>.
\<close>

datatype io_call =
    Open json string
  | Mkdir string
  | Frombytes json json bytes
  | Save string json json bytes
  | Imshow "json list"
  | Savefig string "json list"
  | InitLogger string

datatype mq_call =
    BlockingConnection string
  | Channel
  | ExchangeDeclare string string
  | QueueDeclare string bool
  | QueueBind string string string
  | BasicConsume string bool
  | BasicPublish string string bytes

text \<open>
  What the program has done so far: the log records and the lines printed (each a format
  string with its arguments), and the calls that went through, in order.
\<close>

record world =
  logged :: "(level \<times> string \<times> arg list) list"
  stdout :: "(string \<times> arg list) list"
  io_calls :: "io_call list"
  mq_calls :: "mq_call list"

text \<open>
  What the program cannot decide for itself: where the module file lies
  (\<open>PROCESSED_DIRECTORY\<close> is computed from \<open>__file__\<close>), whether the star import
  of \<open>cortex_pb2\<close> binds the name \<open>sys\<close> (the module never imports it
  itself), how \<open>str.format\<close> renders a value, what a file holds, and which outside
  calls fail with which exception.
\<close>

record env =
  PROCESSED_DIRECTORY :: string
  sys_bound :: bool
  py_str :: "json \<Rightarrow> string"
  file_content :: "json \<Rightarrow> bytes"
  io_fault :: "io_call \<Rightarrow> py_error option"
  mq_fault :: "mq_call \<Rightarrow> py_error option"

definition CHANNEL_NAME :: string where
  "CHANNEL_NAME = ''snapshot_message''"

definition EXCHANGE_NAME :: string where
  "EXCHANGE_NAME = ''snapshot''"

definition EXCHANGE_PUBLISH :: string where
  "EXCHANGE_PUBLISH = ''processed_data''"

subsection \<open>Sequencing statements that may raise\<close>

text \<open>
  A statement runs in a world and ends with a value or a raised exception, and the world
  it leaves. \<open>then_do\<close> runs the next statement unless the first one raised.
\<close>

definition then_do ::
  "(py_error + 'a) \<times> world \<Rightarrow> ('a \<Rightarrow> world \<Rightarrow> (py_error + 'b) \<times> world)
    \<Rightarrow> (py_error + 'b) \<times> world" where
  "then_do r f = (case r of (Inl e, w) \<Rightarrow> (Inl e, w) | (Inr x, w) \<Rightarrow> f x w)"

text \<open>An expression: it may raise, and leaves the world as it is.\<close>

definition expr :: "py_error + 'a \<Rightarrow> world \<Rightarrow> (py_error + 'a) \<times> world" where
  "expr r w = (r, w)"

definition call_io :: "env \<Rightarrow> io_call \<Rightarrow> world \<Rightarrow> (py_error + unit) \<times> world" where
  "call_io E c w =
     (case io_fault E c of
        Some e \<Rightarrow> (Inl e, w)
      | None \<Rightarrow> (Inr (), w\<lparr>io_calls := io_calls w @ [c]\<rparr>))"

definition call_mq :: "env \<Rightarrow> mq_call \<Rightarrow> world \<Rightarrow> (py_error + unit) \<times> world" where
  "call_mq E c w =
     (case mq_fault E c of
        Some e \<Rightarrow> (Inl e, w)
      | None \<Rightarrow> (Inr (), w\<lparr>mq_calls := mq_calls w @ [c]\<rparr>))"

definition open_read :: "env \<Rightarrow> json \<Rightarrow> string \<Rightarrow> world \<Rightarrow> (py_error + bytes) \<times> world" where
  "open_read E path mode w =
     then_do (call_io E (Open path mode) w) (\<lambda>_ w. (Inr (file_content E path), w))"

definition logging_debug :: "string \<Rightarrow> arg list \<Rightarrow> world \<Rightarrow> world" where
  "logging_debug msg args w = w\<lparr>logged := logged w @ [(DEBUG, msg, args)]\<rparr>"

definition logging_error :: "string \<Rightarrow> arg list \<Rightarrow> world \<Rightarrow> world" where
  "logging_error msg args w = w\<lparr>logged := logged w @ [(ERROR, msg, args)]\<rparr>"

definition print :: "string \<Rightarrow> arg list \<Rightarrow> world \<Rightarrow> world" where
  "print msg args w = w\<lparr>stdout := stdout w @ [(msg, args)]\<rparr>"

subsection \<open>The json module and subscription\<close>

text \<open>The exception \<open>json.loads\<close> raises for each reason.\<close>

fun loads_raises :: "decode_failure \<Rightarrow> py_error" where
  "loads_raises NotJson = JSONDecodeError"
| "loads_raises NotUtf8 = UnicodeDecodeError"
| "loads_raises IntTooLong = ValueError"
| "loads_raises TooDeep = RecursionError"

definition json_loads :: "bytes \<Rightarrow> py_error + json" where
  "json_loads data =
     (case data of JsonText v \<Rightarrow> Inr v | Undecodable s why \<Rightarrow> Inl (loads_raises why))"

definition json_dumps :: "json \<Rightarrow> bytes" where
  "json_dumps v = JsonText v"

text \<open>
  \<open>v[k]\<close> for a string \<open>k\<close>: the value of the key in a dict (the last item
  with that key, as in a dict built item by item), \<open>KeyError\<close> when the dict lacks
  the key, \<open>TypeError\<close> when \<open>v\<close> is not a dict.
\<close>

definition getitem :: "json \<Rightarrow> string \<Rightarrow> py_error + json" where
  "getitem v k =
     (case v of
        JObj items \<Rightarrow>
          (case map_of (rev items) k of None \<Rightarrow> Inl (KeyError k) | Some x \<Rightarrow> Inr x)
      | _ \<Rightarrow> Inl TypeError)"

text \<open>
  A dict display \<open>{k1: e1, k2: e2, ...}\<close> whose entries are subscriptions of one
  value (\<open>Get\<close>) or values at hand (\<open>Lit\<close>), evaluated left to right.
\<close>

datatype item = Get string | Lit json

fun dict_literal :: "json \<Rightarrow> (string \<times> item) list \<Rightarrow> py_error + (string \<times> json) list" where
  "dict_literal d [] = Inr []"
| "dict_literal d ((k, Lit v) # rest) =
     (case dict_literal d rest of Inl e \<Rightarrow> Inl e | Inr r \<Rightarrow> Inr ((k, v) # r))"
| "dict_literal d ((k, Get src) # rest) =
     (case getitem d src of
        Inl e \<Rightarrow> Inl e
      | Inr v \<Rightarrow> (case dict_literal d rest of Inl e \<Rightarrow> Inl e | Inr r \<Rightarrow> Inr ((k, v) # r)))"


section \<open>The parsers\<close>

type_synonym parser_fn = "env \<Rightarrow> bytes \<Rightarrow> world \<Rightarrow> (py_error + bytes option) \<times> world"

subsection \<open>pose\<close>

definition pose_result :: "(string \<times> item) list" where
  "pose_result =
     [(''user_id'', Get ''user_id''),
      (''datetime'', Get ''datetime''),
      (''rotation_x'', Get ''pose_rotation_x''),
      (''rotation_y'', Get ''pose_rotation_y''),
      (''rotation_z'', Get ''pose_rotation_z''),
      (''rotation_w'', Get ''pose_rotation_w''),
      (''translation_x'', Get ''pose_translation_x''),
      (''translation_y'', Get ''pose_translation_y''),
      (''translation_z'', Get ''pose_translation_z'')]"

text \<open>
  The \<open>except KeyError\<close> handler subscripts \<open>snapshot_json\<close> with
  \<open>datetime\<close> and \<open>user_id\<close> again; both subscriptions succeeded just
  before the \<open>try\<close>, so the handler uses their values.
\<close>

definition pose :: parser_fn where
  "pose E data w =
     then_do (expr (json_loads data) w) (\<lambda>snapshot_json w.
     then_do (expr (getitem snapshot_json ''user_id'') w) (\<lambda>uid w.
     then_do (expr (getitem snapshot_json ''datetime'') w) (\<lambda>dt w.
       let w = logging_debug ''Received Snapshot from user {}, Snapshot {}'' [Val uid, Val dt] w in
       (case dict_literal snapshot_json pose_result of
          Inr result \<Rightarrow> (Inr (Some (json_dumps (JObj result))), w)
        | Inl (KeyError k) \<Rightarrow>
            (Inr None,
             logging_error ''Snapshot {} from user {} did not contain necessary pose data: {}''
               [Val dt, Val uid, Exc (KeyError k)] w)
        | Inl e \<Rightarrow> (Inl e, w)))))"

subsection \<open>feelings\<close>

definition feelings_result :: "(string \<times> item) list" where
  "feelings_result =
     [(''user_id'', Get ''user_id''),
      (''datetime'', Get ''datetime''),
      (''happiness'', Get ''happiness''),
      (''thirst'', Get ''thirst''),
      (''hunger'', Get ''hunger''),
      (''exhaustion'', Get ''exhaustion'')]"

definition feelings :: parser_fn where
  "feelings E data w =
     then_do (expr (json_loads data) w) (\<lambda>snapshot_json w.
     then_do (expr (getitem snapshot_json ''user_id'') w) (\<lambda>uid w.
     then_do (expr (getitem snapshot_json ''datetime'') w) (\<lambda>dt w.
       let w = logging_debug ''Received Snapshot from user {}, Snapshot {}'' [Val uid, Val dt] w in
       (case dict_literal snapshot_json feelings_result of
          Inr result \<Rightarrow> (Inr (Some (json_dumps (JObj result))), w)
        | Inl (KeyError k) \<Rightarrow>
            (Inr None,
             logging_error ''Snapshot {} by user {} did not contain all necessary feelings data: {}''
               [Val dt, Val uid, Exc (KeyError k)] w)
        | Inl e \<Rightarrow> (Inl e, w)))))"

subsection \<open>color_image\<close>

definition color_image_try :: "env \<Rightarrow> json \<Rightarrow> world \<Rightarrow> (py_error + bytes option) \<times> world" where
  "color_image_try E snapshot_json w =
     then_do (expr (getitem snapshot_json ''color_image_path'') w) (\<lambda>path w.
     then_do (open_read E path ''rb'' w) (\<lambda>image_bytes w.
     then_do (call_io E (Mkdir (PROCESSED_DIRECTORY E)) w) (\<lambda>_ w.
     then_do (expr (getitem snapshot_json ''user_id'') w) (\<lambda>uid w.
     then_do (expr (getitem snapshot_json ''datetime'') w) (\<lambda>dt w.
       let final_path =
         PROCESSED_DIRECTORY E @ ''/'' @ py_str E uid @ ''_'' @ py_str E dt @ ''_color.jpg'' in
     then_do (expr (getitem snapshot_json ''color_image_width'') w) (\<lambda>width w.
     then_do (expr (getitem snapshot_json ''color_image_height'') w) (\<lambda>height w.
     then_do (call_io E (Frombytes width height image_bytes) w) (\<lambda>_ w.
     then_do (call_io E (Save final_path width height image_bytes) w) (\<lambda>_ w.
     then_do (expr (dict_literal snapshot_json
         [(''user_id'', Get ''user_id''),
          (''datetime'', Get ''datetime''),
          (''color_image_path'', Lit (JStr final_path)),
          (''height'', Get ''color_image_height''),
          (''width'', Get ''color_image_width'')]) w) (\<lambda>result w.
       (Inr (Some (json_dumps (JObj result))), w)))))))))))"

definition color_image :: parser_fn where
  "color_image E data w =
     then_do (expr (json_loads data) w) (\<lambda>snapshot_json w.
     then_do (expr (getitem snapshot_json ''user_id'') w) (\<lambda>uid w.
     then_do (expr (getitem snapshot_json ''datetime'') w) (\<lambda>dt w.
       let w = logging_debug ''Received Snapshot from user {}, Snapshot {}'' [Val uid, Val dt] w in
       (case color_image_try E snapshot_json w of
          (Inl (KeyError k), w) \<Rightarrow>
            (Inr None,
             logging_error
               ''Error: Snapshot {} from user {} did not contain necessary color image data: {}''
               [Val dt, Val uid, Exc (KeyError k)] w)
        | (Inl (OSError m), w) \<Rightarrow>
            (Inr None, logging_error ''Error: file error: {}'' [Exc (OSError m)] w)
        | r \<Rightarrow> r))))"

subsection \<open>depth_image\<close>

text \<open>
  \<open>xs[a:b]\<close> for integers \<open>a\<close> and \<open>b\<close>: a negative bound counts from
  the end, and both bounds are clipped to the sequence.
\<close>

definition py_slice :: "'a list \<Rightarrow> int \<Rightarrow> int \<Rightarrow> 'a list" where
  "py_slice xs a b =
     (let n = int (length xs);
          lo = (if a < 0 then max (a + n) 0 else min a n);
          hi = (if b < 0 then max (b + n) 0 else min b n)
      in take (nat (hi - lo)) (drop (nat lo) xs))"

text \<open>A value usable as an integer: an int, or a bool (\<open>True\<close> is 1).\<close>

fun as_int :: "json \<Rightarrow> int option" where
  "as_int (JInt n) = Some n"
| "as_int (JBool b) = Some (if b then 1 else 0)"
| "as_int _ = None"

text \<open>
  \<open>image_array[(i*width):(i*width)+(width-1)]\<close>. With a \<open>width\<close> that is not
  an integer either the arithmetic or the slice raises \<open>TypeError\<close>; lists and
  strings can be sliced, any other value raises \<open>TypeError\<close> (for a dict, up to
  Python 3.11).
\<close>

definition row :: "json \<Rightarrow> json \<Rightarrow> int \<Rightarrow> py_error + json" where
  "row image_array width i =
     (case as_int width of
        None \<Rightarrow> Inl TypeError
      | Some wd \<Rightarrow>
          (case image_array of
             JArr xs \<Rightarrow> Inr (JArr (py_slice xs (i * wd) ((i * wd) + (wd - 1))))
           | JStr s \<Rightarrow> Inr (JStr (py_slice s (i * wd) ((i * wd) + (wd - 1))))
           | _ \<Rightarrow> Inl TypeError))"

fun reshape_loop :: "json \<Rightarrow> json \<Rightarrow> nat list \<Rightarrow> json list \<Rightarrow> py_error + json list" where
  "reshape_loop image_array width [] new_array = Inr new_array"
| "reshape_loop image_array width (i # rest) new_array =
     (case row image_array width (int i) of
        Inl e \<Rightarrow> Inl e
      | Inr r \<Rightarrow> reshape_loop image_array width rest (new_array @ [r]))"

text \<open>
  Lines 212 to 216: \<open>for i in range(height)\<close> over an empty \<open>new_array\<close>;
  \<open>range\<close> raises \<open>TypeError\<close> unless \<open>height\<close> is an integer and is
  empty when it is not positive.
\<close>

definition reshape :: "json \<Rightarrow> json \<Rightarrow> json \<Rightarrow> py_error + json list" where
  "reshape image_array width height =
     (case as_int height of
        None \<Rightarrow> Inl TypeError
      | Some h \<Rightarrow> reshape_loop image_array width [0..<nat h] [])"

definition depth_image_try :: "env \<Rightarrow> json \<Rightarrow> world \<Rightarrow> (py_error + bytes option) \<times> world" where
  "depth_image_try E snapshot_json w =
     then_do (expr (getitem snapshot_json ''depth_image_path'') w) (\<lambda>path w.
     then_do (open_read E path ''r'' w) (\<lambda>serialized w.
     then_do (expr (json_loads serialized) w) (\<lambda>data_json w.
     then_do (expr (getitem data_json ''data'') w) (\<lambda>image_array w.
     then_do (expr (getitem snapshot_json ''user_id'') w) (\<lambda>uid w.
     then_do (expr (getitem snapshot_json ''datetime'') w) (\<lambda>dt w.
       let final_path =
         PROCESSED_DIRECTORY E @ ''/'' @ py_str E uid @ ''_'' @ py_str E dt @ ''_depth.jpg'' in
     then_do (expr (getitem snapshot_json ''depth_image_width'') w) (\<lambda>width w.
     then_do (expr (getitem snapshot_json ''depth_image_height'') w) (\<lambda>height w.
     then_do (expr (reshape image_array width height) w) (\<lambda>new_array w.
     then_do (call_io E (Mkdir (PROCESSED_DIRECTORY E)) w) (\<lambda>_ w.
     then_do (call_io E (Imshow new_array) w) (\<lambda>_ w.
     then_do (call_io E (Savefig final_path new_array) w) (\<lambda>_ w.
     then_do (expr (dict_literal snapshot_json
         [(''user_id'', Get ''user_id''),
          (''datetime'', Get ''datetime''),
          (''height'', Get ''depth_image_height''),
          (''width'', Get ''depth_image_width''),
          (''depth_image_path'', Lit (JStr final_path))]) w) (\<lambda>result w.
       (Inr (Some (json_dumps (JObj result))), w))))))))))))))"

text \<open>
  The \<open>OSError\<close> handler ends with the expression statement \<open>None\<close>, not a
  \<open>return\<close>; the function then falls off its end, which returns \<open>None\<close> too.
\<close>

definition depth_image :: parser_fn where
  "depth_image E data w =
     then_do (expr (json_loads data) w) (\<lambda>snapshot_json w.
     then_do (expr (getitem snapshot_json ''user_id'') w) (\<lambda>uid w.
     then_do (expr (getitem snapshot_json ''datetime'') w) (\<lambda>dt w.
       let w = logging_debug ''Received Snapshot from user {}, Snapshot {}'' [Val uid, Val dt] w in
       (case depth_image_try E snapshot_json w of
          (Inl (KeyError k), w) \<Rightarrow>
            (Inr None,
             logging_error ''Snapshot {} from user {} did not have necessary depth image data: {}''
               [Val dt, Val uid, Exc (KeyError k)] w)
        | (Inl (OSError m), w) \<Rightarrow>
            (Inr None,
             logging_error ''Error: file error for snapshot {} by user {}: {}''
               [Val dt, Val uid, Exc (OSError m)] w)
        | r \<Rightarrow> r))))"

section \<open>The registry and the dispatcher\<close>

text \<open>
  A function object is its \<open>__name__\<close> and what calling it does. The decorator
  stores the function under its name: an assignment to a dict item, which replaces the
  value of a key the dict has and adds the key at the end otherwise.
\<close>

definition parser :: "string \<times> parser_fn \<Rightarrow> (string \<times> parser_fn) list \<Rightarrow> (string \<times> parser_fn) list" where
  "parser func parsers_dict = AList.update (fst func) (snd func) parsers_dict"

text \<open>The module's \<open>PARSERS\<close> once it is loaded: the four decorated functions.\<close>

definition PARSERS :: "(string \<times> parser_fn) list" where
  "PARSERS =
     parser (''feelings'', feelings)
       (parser (''depth_image'', depth_image)
         (parser (''color_image'', color_image)
           (parser (''pose'', pose) [])))"

definition run_parser :: "env \<Rightarrow> string \<Rightarrow> bytes \<Rightarrow> world \<Rightarrow> (py_error + bytes option) \<times> world" where
  "run_parser E parser_name data w =
     (case map_of PARSERS parser_name of
        None \<Rightarrow> (Inl (KeyError parser_name), w)
      | Some f \<Rightarrow> f E data w)"

fun list_loop :: "string list \<Rightarrow> int \<Rightarrow> world \<Rightarrow> world" where
  "list_loop [] count w = w"
| "list_loop (parser_type # rest) count w =
     list_loop rest (count + 1)
       (print ''{}. {}'' [Val (JInt (count + 1)), Val (JStr parser_type)] w)"

definition error_list_parsers :: "world \<Rightarrow> world" where
  "error_list_parsers w =
     list_loop (map fst PARSERS) 0 (print ''Error: Unknown parser. Available parsers:'' [] w)"

text \<open>
  \<open>sys.exit(n)\<close> raises \<open>SystemExit\<close>, provided the name \<open>sys\<close> is bound;
  evaluating an unbound name raises \<open>NameError\<close>.
\<close>

definition sys_exit :: "env \<Rightarrow> int \<Rightarrow> world \<Rightarrow> (py_error + 'a) \<times> world" where
  "sys_exit E n w = (if sys_bound E then (Inl (SystemExit n), w) else (Inl (NameError ''sys''), w))"

definition exit_run :: "env \<Rightarrow> world \<Rightarrow> (py_error + 'a) \<times> world" where
  "exit_run E w = sys_exit E 1 (print ''Error encountered. please see log for details.'' [] w)"

text \<open>
  The status the interpreter exits with when the exception reaches the top of the
  program uncaught: the code of a \<open>SystemExit\<close>, and 1 after any other exception.
\<close>

fun exit_status :: "py_error \<Rightarrow> int" where
  "exit_status (SystemExit n) = n"
| "exit_status _ = 1"

section \<open>The service\<close>

definition parser_callback :: "env \<Rightarrow> string \<Rightarrow> bytes \<Rightarrow> world \<Rightarrow> (py_error + unit) \<times> world" where
  "parser_callback E parser_name body w =
     then_do (run_parser E parser_name body w) (\<lambda>result w.
       (case result of
          None \<Rightarrow> (Inr (), w)
        | Some result \<Rightarrow>
            then_do (expr (json_loads result) w) (\<lambda>result_dict w.
            then_do (call_mq E Channel w) (\<lambda>_ w.
            then_do (call_mq E (ExchangeDeclare EXCHANGE_PUBLISH ''topic'') w) (\<lambda>_ w.
            then_do (expr (getitem result_dict ''user_id'') w) (\<lambda>uid w.
            then_do (expr (getitem result_dict ''datetime'') w) (\<lambda>dt w.
              let w = logging_debug
                ''Publishing Back to MQ Data processed by {}, user {}, Snapshot {}''
                [Val (JStr parser_name), Val uid, Val dt] w in
              call_mq E (BasicPublish EXCHANGE_PUBLISH parser_name result) w)))))))"

text \<open>
  \<open>channel.start_consuming()\<close> on the bodies delivered so far: the callback runs on
  each in turn, and an exception it raises comes out of \<open>start_consuming\<close>. When the
  bodies are used up the call is still blocked, waiting for the next delivery.
\<close>

fun start_consuming :: "env \<Rightarrow> string \<Rightarrow> bytes list \<Rightarrow> world \<Rightarrow> (py_error + unit) \<times> world" where
  "start_consuming E parser_name [] w = (Inr (), w)"
| "start_consuming E parser_name (body # rest) w =
     (case parser_callback E parser_name body w of
        (Inl e, w) \<Rightarrow> (Inl e, w)
      | (Inr _, w) \<Rightarrow> start_consuming E parser_name rest w)"

definition run_parser_service_try ::
  "env \<Rightarrow> string \<Rightarrow> string \<Rightarrow> bytes list \<Rightarrow> world \<Rightarrow> (py_error + unit) \<times> world" where
  "run_parser_service_try E parser_name message_queue deliveries w =
     (let w = print ''{}'' [Val (JStr message_queue)] w in
      then_do (call_mq E (BlockingConnection message_queue) w) (\<lambda>_ w.
      then_do (call_mq E Channel w) (\<lambda>_ w.
      then_do (call_mq E (ExchangeDeclare EXCHANGE_NAME ''direct'') w) (\<lambda>_ w.
      then_do (call_mq E (QueueDeclare parser_name True) w) (\<lambda>_ w.
      then_do (call_mq E (QueueBind EXCHANGE_NAME parser_name EXCHANGE_NAME) w) (\<lambda>_ w.
      then_do (call_mq E (BasicConsume parser_name True) w) (\<lambda>_ w.
        let w = print ''{}: Starting to consume'' [Val (JStr parser_name)] w in
        start_consuming E parser_name deliveries w)))))))"

definition run_parser_service ::
  "env \<Rightarrow> string \<Rightarrow> string \<Rightarrow> bytes list \<Rightarrow> world \<Rightarrow> (py_error + unit) \<times> world" where
  "run_parser_service E parser_name message_queue deliveries w =
     (case run_parser_service_try E parser_name message_queue deliveries w of
        (Inl (AMQPError m), w) \<Rightarrow>
          exit_run E (logging_error ''Error in run_parser_service: {}'' [Exc (AMQPError m)] w)
      | r \<Rightarrow> r)"

section \<open>The entry point\<close>

definition init_logger :: "env \<Rightarrow> string \<Rightarrow> world \<Rightarrow> (py_error + unit) \<times> world" where
  "init_logger E parser_name w = call_io E (InitLogger parser_name) w"

text \<open>\<open>except Exception\<close> catches every class of the model but \<open>SystemExit\<close>.\<close>

fun is_Exception :: "py_error \<Rightarrow> bool" where
  "is_Exception (SystemExit n) = False"
| "is_Exception _ = True"

definition run_parser_wrapper ::
  "env \<Rightarrow> string \<Rightarrow> json \<Rightarrow> string \<Rightarrow> string \<Rightarrow> bytes list \<Rightarrow> world
    \<Rightarrow> (py_error + bytes option) \<times> world" where
  "run_parser_wrapper E parser_name data mq action deliveries w =
     (if parser_name \<notin> set (map fst PARSERS) then sys_exit E 1 (error_list_parsers w)
      else
        then_do (init_logger E parser_name w) (\<lambda>_ w.
          if action = ''once'' then
            (case open_read E data ''rb'' w of
               (Inl e, w) \<Rightarrow>
                 if is_Exception e
                 then exit_run E (logging_error ''Raw data file error: {}'' [Exc e] w)
                 else (Inl e, w)
             | (Inr data_, w) \<Rightarrow> run_parser E parser_name data_ w)
          else if action = ''service'' then
            then_do (run_parser_service E parser_name mq deliveries w) (\<lambda>_ w. (Inr None, w))
          else (Inr None, w)))"

section \<open>Worked examples\<close>

text \<open>
  An environment in which every outside call goes through, \<open>sys\<close> is bound, and the
  depth file holds six values; it renders strings, the only values the examples format.
\<close>

definition quiet_env :: env where
  "quiet_env =
     \<lparr>PROCESSED_DIRECTORY = ''/cortex/files/processed'',
      sys_bound = True,
      py_str = (\<lambda>v. case v of JStr s \<Rightarrow> s | _ \<Rightarrow> ''?''),
      file_content =
        (\<lambda>path. JsonText (JObj [(''data'', JArr [JInt 1, JInt 2, JInt 3, JInt 4, JInt 5, JInt 6])])),
      io_fault = (\<lambda>c. None),
      mq_fault = (\<lambda>c. None)\<rparr>"

definition empty_world :: world where
  "empty_world = \<lparr>logged = [], stdout = [], io_calls = [], mq_calls = []\<rparr>"

definition pose_snapshot :: json where
  "pose_snapshot =
     JObj [(''user_id'', JStr ''u1''),
           (''datetime'', JStr ''d1''),
           (''pose_rotation_x'', JFloat 0.1),
           (''pose_rotation_y'', JFloat 0.2),
           (''pose_rotation_z'', JFloat 0.3),
           (''pose_rotation_w'', JFloat 0.4),
           (''pose_translation_x'', JFloat 1.5),
           (''pose_translation_y'', JFloat 2.5),
           (''pose_translation_z'', JFloat 3.5)]"

definition pose_record :: "(string \<times> json) list" where
  "pose_record =
     [(''user_id'', JStr ''u1''),
      (''datetime'', JStr ''d1''),
      (''rotation_x'', JFloat 0.1),
      (''rotation_y'', JFloat 0.2),
      (''rotation_z'', JFloat 0.3),
      (''rotation_w'', JFloat 0.4),
      (''translation_x'', JFloat 1.5),
      (''translation_y'', JFloat 2.5),
      (''translation_z'', JFloat 3.5)]"

definition color_snapshot :: json where
  "color_snapshot =
     JObj [(''user_id'', JStr ''u1''),
           (''datetime'', JStr ''d1''),
           (''color_image_path'', JStr ''/raw/color.bin''),
           (''color_image_width'', JInt 2),
           (''color_image_height'', JInt 2)]"

definition depth_snapshot :: json where
  "depth_snapshot =
     JObj [(''user_id'', JStr ''u1''),
           (''datetime'', JStr ''d1''),
           (''depth_image_path'', JStr ''/raw/depth.json''),
           (''depth_image_width'', JInt 3),
           (''depth_image_height'', JInt 2)]"

text \<open>An environment in which no file can be opened, and one in which no image can be saved.\<close>

definition no_files_env :: env where
  "no_files_env =
     quiet_env\<lparr>io_fault :=
       (\<lambda>c. case c of Open path mode \<Rightarrow> Some (OSError ''No such file or directory'') | _ \<Rightarrow> None)\<rparr>"

definition full_disk_env :: env where
  "full_disk_env =
     quiet_env\<lparr>io_fault :=
       (\<lambda>c. case c of
          Save path w h data \<Rightarrow> Some (OSError ''No space left on device'')
        | Savefig path rows \<Rightarrow> Some (OSError ''No space left on device'')
        | _ \<Rightarrow> None)\<rparr>"

section \<open>Basic facts\<close>

lemma then_do_Inl [simp]: "then_do (Inl e, w) f = (Inl e, w)"
  by (simp add: then_do_def)

lemma then_do_Inr [simp]: "then_do (Inr x, w) f = f x w"
  by (simp add: then_do_def)

lemma expr_eq [simp]: "expr r w = (r, w)"
  by (simp add: expr_def)

lemma json_loads_simps [simp]:
  "json_loads (JsonText v) = Inr v"
  "json_loads (Undecodable s why) = Inl (loads_raises why)"
  by (simp_all add: json_loads_def)

lemma loads_raises_not_caught [simp]:
  "loads_raises why \<noteq> AMQPError m"
  "loads_raises why \<noteq> KeyError k"
  "loads_raises why \<noteq> OSError m"
  by (cases why; simp)+

lemma getitem_lacks: "k \<notin> fst ` set items \<Longrightarrow> getitem (JObj items) k = Inl (KeyError k)"
  by (simp add: getitem_def map_of_eq_None_iff[THEN iffD2])

lemma getitem_has:
  assumes "k \<in> fst ` set items"
  shows "\<exists>v. getitem (JObj items) k = Inr v"
proof -
  from assms have "map_of (rev items) k \<noteq> None"
    by (simp add: map_of_eq_None_iff)
  then show ?thesis
    by (auto simp: getitem_def)
qed

lemma PARSERS_eq:
  "PARSERS =
     [(''pose'', pose), (''color_image'', color_image),
      (''depth_image'', depth_image), (''feelings'', feelings)]"
  by (simp add: PARSERS_def parser_def)

lemma registered_names:
  "map fst PARSERS = [''pose'', ''color_image'', ''depth_image'', ''feelings'']"
  by (simp add: PARSERS_eq)

lemma registered_cases:
  assumes "parser_name \<in> set (map fst PARSERS)"
  obtains "parser_name = ''pose''" | "parser_name = ''color_image''"
    | "parser_name = ''depth_image''" | "parser_name = ''feelings''"
  using assms by (auto simp: registered_names)

lemma run_parser_simps:
  "run_parser E ''pose'' = pose E"
  "run_parser E ''color_image'' = color_image E"
  "run_parser E ''depth_image'' = depth_image E"
  "run_parser E ''feelings'' = feelings E"
  by (auto simp: run_parser_def PARSERS_eq fun_eq_iff)

lemma missing_key_first:
  assumes "''user_id'' \<notin> fst ` set items \<or> ''datetime'' \<notin> fst ` set items"
  shows "then_do (getitem (JObj items) ''user_id'', w) (\<lambda>uid w.
         then_do (getitem (JObj items) ''datetime'', w) (\<lambda>dt w. f uid dt w))
       = (Inl (KeyError (if ''user_id'' \<notin> fst ` set items then ''user_id'' else ''datetime'')), w)"
proof (cases "''user_id'' \<in> fst ` set items")
  case True
  then obtain v where "getitem (JObj items) ''user_id'' = Inr v"
    using getitem_has by blast
  moreover from True assms have "getitem (JObj items) ''datetime'' = Inl (KeyError ''datetime'')"
    by (simp add: getitem_lacks)
  ultimately show ?thesis using True by simp
next
  case False
  then show ?thesis by (simp add: getitem_lacks)
qed

section \<open>Claims about the correlation key and missing fields\<close>

text \<open>
  C10. For every registered parser, when the decoded JSON object lacks \<open>user_id\<close> or
  \<open>datetime\<close>, the parser does not return \<open>None\<close>: the \<open>KeyError\<close> of the
  first missing one of the two is raised by the logging line before the \<open>try\<close>, and
  escapes, with nothing logged.
\<close>

theorem missing_correlation_key_raises:
  assumes "parser_name \<in> set (map fst PARSERS)"
    and "''user_id'' \<notin> fst ` set items \<or> ''datetime'' \<notin> fst ` set items"
  shows "run_parser E parser_name (JsonText (JObj items)) w =
    (Inl (KeyError (if ''user_id'' \<notin> fst ` set items then ''user_id'' else ''datetime'')), w)"
  using assms(1)
proof (cases rule: registered_cases)
  case 1
  then show ?thesis
    by (simp add: run_parser_simps pose_def missing_key_first[OF assms(2)])
next
  case 2
  then show ?thesis
    by (simp add: run_parser_simps color_image_def missing_key_first[OF assms(2)])
next
  case 3
  then show ?thesis
    by (simp add: run_parser_simps depth_image_def missing_key_first[OF assms(2)])
next
  case 4
  then show ?thesis
    by (simp add: run_parser_simps feelings_def missing_key_first[OF assms(2)])
qed

theorem missing_correlation_key_raises_witness:
  "''depth_image'' \<in> set (map fst PARSERS)
   \<and> ''datetime'' \<notin> fst ` set [(''user_id'', JStr ''u1''), (''depth_image_path'', JStr ''/raw/d.json'')]
   \<and> run_parser quiet_env ''depth_image''
        (JsonText (JObj [(''user_id'', JStr ''u1''), (''depth_image_path'', JStr ''/raw/d.json'')]))
        empty_world
      = (Inl (KeyError ''datetime''), empty_world)"
  using missing_correlation_key_raises
    [of "''depth_image''" "[(''user_id'', JStr ''u1''), (''depth_image_path'', JStr ''/raw/d.json'')]"
      quiet_env empty_world]
  by (simp add: registered_names)

text \<open>
  C2, as amended. When the snapshot has the nine fields \<open>pose\<close> reads, \<open>pose\<close>
  returns the record of \<open>user_id\<close>, \<open>datetime\<close> and the seven pose values
  (rotation x, y, z, w and translation x, y, z), each unchanged; it logs one debug record
  and makes no outside call, so no file is written.
\<close>

theorem pose_passes_seven_values:
  assumes "getitem snap ''user_id'' = Inr uid" and "getitem snap ''datetime'' = Inr dt"
    and "getitem snap ''pose_rotation_x'' = Inr rx" and "getitem snap ''pose_rotation_y'' = Inr ry"
    and "getitem snap ''pose_rotation_z'' = Inr rz" and "getitem snap ''pose_rotation_w'' = Inr rw"
    and "getitem snap ''pose_translation_x'' = Inr tx" and "getitem snap ''pose_translation_y'' = Inr ty"
    and "getitem snap ''pose_translation_z'' = Inr tz"
  shows "pose E (JsonText snap) w =
    (Inr (Some (JsonText (JObj
       [(''user_id'', uid), (''datetime'', dt),
        (''rotation_x'', rx), (''rotation_y'', ry), (''rotation_z'', rz), (''rotation_w'', rw),
        (''translation_x'', tx), (''translation_y'', ty), (''translation_z'', tz)]))),
     w\<lparr>logged := logged w @
        [(DEBUG, ''Received Snapshot from user {}, Snapshot {}'', [Val uid, Val dt])]\<rparr>)
    \<and> io_calls (snd (pose E (JsonText snap) w)) = io_calls w"
  using assms by (simp add: pose_def pose_result_def json_dumps_def logging_debug_def)

theorem pose_passes_seven_values_witness:
  "getitem pose_snapshot ''pose_translation_z'' = Inr (JFloat 3.5)
   \<and> pose quiet_env (JsonText pose_snapshot) empty_world =
      (Inr (Some (JsonText (JObj pose_record))),
       empty_world\<lparr>logged :=
         [(DEBUG, ''Received Snapshot from user {}, Snapshot {}'', [Val (JStr ''u1''), Val (JStr ''d1'')])]\<rparr>)
   \<and> io_calls (snd (pose quiet_env (JsonText pose_snapshot) empty_world)) = []"
  using pose_passes_seven_values
    [of pose_snapshot "JStr ''u1''" "JStr ''d1''" "JFloat 0.1" "JFloat 0.2" "JFloat 0.3" "JFloat 0.4"
      "JFloat 1.5" "JFloat 2.5" "JFloat 3.5" quiet_env empty_world]
  by (simp add: pose_snapshot_def pose_record_def getitem_def empty_world_def)

text \<open>
  Against C2 as stated: the record \<open>pose\<close> returns for a snapshot of exactly the nine
  fields has seven fields besides \<open>user_id\<close> and \<open>datetime\<close>, not eight.
\<close>

theorem pose_result_not_eight_values:
  "fst (pose quiet_env (JsonText pose_snapshot) empty_world) = Inr (Some (JsonText (JObj pose_record)))
   \<and> length [kv \<leftarrow> pose_record. fst kv \<noteq> ''user_id'' \<and> fst kv \<noteq> ''datetime''] = 7
   \<and> length [kv \<leftarrow> pose_record. fst kv \<noteq> ''user_id'' \<and> fst kv \<noteq> ''datetime''] \<noteq> 8"
  by (simp add: pose_def pose_result_def pose_snapshot_def pose_record_def getitem_def
      json_dumps_def logging_debug_def)

lemma dict_literal_lacks:
  assumes "(k, Get src) \<in> set entries" and "src \<notin> fst ` set items"
  shows "\<exists>src'. (\<exists>k'. (k', Get src') \<in> set entries) \<and> src' \<notin> fst ` set items
     \<and> dict_literal (JObj items) entries = Inl (KeyError src')"
  using assms
proof (induction entries)
  case Nil
  then show ?case by simp
next
  case (Cons f entries)
  obtain k0 it where f: "f = (k0, it)" by (cases f)
  show ?case
  proof (cases it)
    case (Lit v)
    with Cons.prems f have "(k, Get src) \<in> set entries" by auto
    from Cons.IH[OF this Cons.prems(2)] obtain src' k'
      where "(k', Get src') \<in> set entries" "src' \<notin> fst ` set items"
        "dict_literal (JObj items) entries = Inl (KeyError src')"
      by blast
    then show ?thesis using f Lit by auto
  next
    case (Get s0)
    show ?thesis
    proof (cases "s0 \<in> fst ` set items")
      case False
      then have "dict_literal (JObj items) (f # entries) = Inl (KeyError s0)"
        using f Get by (simp add: getitem_lacks)
      with False f Get show ?thesis by auto
    next
      case True
      then obtain v where v: "getitem (JObj items) s0 = Inr v"
        using getitem_has by blast
      from True Cons.prems f Get have "(k, Get src) \<in> set entries" by auto
      from Cons.IH[OF this Cons.prems(2)] obtain src' k'
        where "(k', Get src') \<in> set entries" "src' \<notin> fst ` set items"
          "dict_literal (JObj items) entries = Inl (KeyError src')"
        by blast
      then show ?thesis using f Get v by auto
    qed
  qed
qed

text \<open>
  C4, as amended. When the snapshot carries \<open>user_id\<close> and \<open>datetime\<close> and lacks
  one of \<open>happiness\<close>, \<open>thirst\<close>, \<open>hunger\<close>, \<open>exhaustion\<close>,
  \<open>feelings\<close> returns \<open>None\<close> and raises nothing: it logs the debug record and an
  error record that names a missing field and the correlation key.
\<close>

theorem feelings_rejects_missing_feeling:
  assumes "getitem (JObj items) ''user_id'' = Inr uid"
    and "getitem (JObj items) ''datetime'' = Inr dt"
    and "k \<in> {''happiness'', ''thirst'', ''hunger'', ''exhaustion''}"
    and "k \<notin> fst ` set items"
  shows "\<exists>k' \<in> {''happiness'', ''thirst'', ''hunger'', ''exhaustion''}.
     k' \<notin> fst ` set items \<and>
     feelings E (JsonText (JObj items)) w =
       (Inr None,
        w\<lparr>logged := logged w @
          [(DEBUG, ''Received Snapshot from user {}, Snapshot {}'', [Val uid, Val dt]),
           (ERROR, ''Snapshot {} by user {} did not contain all necessary feelings data: {}'',
            [Val dt, Val uid, Exc (KeyError k')])]\<rparr>)"
proof -
  have "(k, Get k) \<in> set feelings_result"
    using assms(3) by (auto simp: feelings_result_def)
  from dict_literal_lacks[OF this assms(4)] obtain k' j
    where k': "(j, Get k') \<in> set feelings_result" "k' \<notin> fst ` set items"
      "dict_literal (JObj items) feelings_result = Inl (KeyError k')"
    by blast
  have "k' \<noteq> ''user_id''" "k' \<noteq> ''datetime''"
    using assms(1,2) k'(2) by (auto simp: getitem_lacks)
  with k'(1) have "k' \<in> {''happiness'', ''thirst'', ''hunger'', ''exhaustion''}"
    by (auto simp: feelings_result_def)
  moreover have "feelings E (JsonText (JObj items)) w =
       (Inr None,
        w\<lparr>logged := logged w @
          [(DEBUG, ''Received Snapshot from user {}, Snapshot {}'', [Val uid, Val dt]),
           (ERROR, ''Snapshot {} by user {} did not contain all necessary feelings data: {}'',
            [Val dt, Val uid, Exc (KeyError k')])]\<rparr>)"
    using assms(1,2) k'(3) by (simp add: feelings_def logging_debug_def logging_error_def)
  ultimately show ?thesis using k'(2) by blast
qed

theorem feelings_rejects_missing_feeling_witness:
  "getitem (JObj [(''user_id'', JStr ''u1''), (''datetime'', JStr ''d1''), (''happiness'', JFloat 0.5),
       (''thirst'', JFloat 0.25), (''exhaustion'', JFloat 0.75)]) ''user_id'' = Inr (JStr ''u1'')
   \<and> ''hunger'' \<notin> fst ` set [(''user_id'', JStr ''u1''), (''datetime'', JStr ''d1''),
       (''happiness'', JFloat 0.5), (''thirst'', JFloat 0.25), (''exhaustion'', JFloat 0.75)]
   \<and> feelings quiet_env
       (JsonText (JObj [(''user_id'', JStr ''u1''), (''datetime'', JStr ''d1''), (''happiness'', JFloat 0.5),
          (''thirst'', JFloat 0.25), (''exhaustion'', JFloat 0.75)])) empty_world =
       (Inr None,
        empty_world\<lparr>logged :=
          [(DEBUG, ''Received Snapshot from user {}, Snapshot {}'', [Val (JStr ''u1''), Val (JStr ''d1'')]),
           (ERROR, ''Snapshot {} by user {} did not contain all necessary feelings data: {}'',
            [Val (JStr ''d1''), Val (JStr ''u1''), Exc (KeyError ''hunger'')])]\<rparr>)"
  using feelings_rejects_missing_feeling
    [of "[(''user_id'', JStr ''u1''), (''datetime'', JStr ''d1''), (''happiness'', JFloat 0.5),
          (''thirst'', JFloat 0.25), (''exhaustion'', JFloat 0.75)]"
      "JStr ''u1''" "JStr ''d1''" "''hunger''" quiet_env empty_world]
  by (simp add: getitem_def empty_world_def)

text \<open>
  Against C4 as stated: with \<open>user_id\<close> as the one missing field, \<open>feelings\<close>
  raises \<open>KeyError\<close> instead of returning \<open>None\<close>, and logs nothing.
\<close>

theorem feelings_missing_user_id_raises:
  "feelings quiet_env
     (JsonText (JObj [(''datetime'', JStr ''d1''), (''happiness'', JFloat 0.5), (''thirst'', JFloat 0.25),
        (''hunger'', JFloat 0.125), (''exhaustion'', JFloat 0.75)])) empty_world
   = (Inl (KeyError ''user_id''), empty_world)"
  by (simp add: feelings_def getitem_def)

section \<open>Claims about the registry and the entry point\<close>

lemma parser_lookup: "map_of (parser (n, g) reg) = (map_of reg)(n \<mapsto> g)"
  by (simp add: parser_def update_conv')

lemma parser_names:
  "map fst (parser (n, g) reg) = (if n \<in> set (map fst reg) then map fst reg else map fst reg @ [n])"
  by (simp add: parser_def update_keys)

text \<open>
  C6, as amended. Registering a function under a name the registry already has raises
  nothing: the name now maps to the new function, which shadows the earlier one; the names
  and their order stay as they were, and so does every other name's function.
\<close>

theorem parser_replaces_registered:
  assumes "n \<in> set (map fst reg)"
  shows "map_of (parser (n, g) reg) n = Some g
    \<and> map fst (parser (n, g) reg) = map fst reg
    \<and> (\<forall>m. m \<noteq> n \<longrightarrow> map_of (parser (n, g) reg) m = map_of reg m)"
  using assms by (simp add: parser_lookup parser_names)

theorem parser_replaces_registered_witness:
  "''pose'' \<in> set (map fst PARSERS)
   \<and> map_of (parser (''pose'', feelings) PARSERS) ''pose'' = Some feelings
   \<and> map fst (parser (''pose'', feelings) PARSERS) = [''pose'', ''color_image'', ''depth_image'', ''feelings'']
   \<and> map_of (parser (''pose'', feelings) PARSERS) ''color_image'' = map_of PARSERS ''color_image''"
  using parser_replaces_registered[of "''pose''" PARSERS feelings]
  by (simp add: registered_names)

text \<open>
  Against C6 as stated: registering \<open>feelings\<close> under the name \<open>pose\<close> in the
  loaded registry goes through; afterwards the name \<open>pose\<close> runs \<open>feelings\<close>, which
  rejects the pose snapshot that \<open>pose\<close> accepts.
\<close>

theorem parser_shadows_silently:
  "map_of (parser (''pose'', feelings) PARSERS) ''pose'' = Some feelings
   \<and> map fst (parser (''pose'', feelings) PARSERS) = map fst PARSERS
   \<and> fst (feelings quiet_env (JsonText pose_snapshot) empty_world) = Inr None
   \<and> fst (pose quiet_env (JsonText pose_snapshot) empty_world) = Inr (Some (JsonText (JObj pose_record)))"
proof -
  have "fst (feelings quiet_env (JsonText pose_snapshot) empty_world) = Inr None"
    by (simp add: feelings_def feelings_result_def pose_snapshot_def getitem_def logging_debug_def)
  moreover have "fst (pose quiet_env (JsonText pose_snapshot) empty_world)
      = Inr (Some (JsonText (JObj pose_record)))"
    by (simp add: pose_def pose_result_def pose_snapshot_def pose_record_def getitem_def
        json_dumps_def logging_debug_def)
  ultimately show ?thesis
    by (simp add: parser_lookup parser_names registered_names)
qed

lemma error_list_parsers_eq:
  "error_list_parsers w =
     w\<lparr>stdout := stdout w @
       [(''Error: Unknown parser. Available parsers:'', []),
        (''{}. {}'', [Val (JInt 1), Val (JStr ''pose'')]),
        (''{}. {}'', [Val (JInt 2), Val (JStr ''color_image'')]),
        (''{}. {}'', [Val (JInt 3), Val (JStr ''depth_image'')]),
        (''{}. {}'', [Val (JInt 4), Val (JStr ''feelings'')])]\<rparr>"
  by (simp add: error_list_parsers_def registered_names print_def)

text \<open>
  C7. When \<open>run_parser_wrapper\<close> is called with a name that is not registered, it prints
  the heading and the four registered names, numbered in registration order, and then
  raises at \<open>sys.exit(1)\<close>: \<open>SystemExit(1)\<close>, or \<open>NameError\<close> if \<open>sys\<close> is
  unbound. Either way the exception is uncaught here and the exit status is 1.
\<close>

theorem unknown_parser_exits:
  assumes "parser_name \<notin> set (map fst PARSERS)"
  shows "\<exists>e. run_parser_wrapper E parser_name data mq action deliveries w =
      (Inl e,
       w\<lparr>stdout := stdout w @
         [(''Error: Unknown parser. Available parsers:'', []),
          (''{}. {}'', [Val (JInt 1), Val (JStr ''pose'')]),
          (''{}. {}'', [Val (JInt 2), Val (JStr ''color_image'')]),
          (''{}. {}'', [Val (JInt 3), Val (JStr ''depth_image'')]),
          (''{}. {}'', [Val (JInt 4), Val (JStr ''feelings'')])]\<rparr>)
    \<and> e = (if sys_bound E then SystemExit 1 else NameError ''sys'')
    \<and> exit_status e = 1 \<and> exit_status e \<noteq> 0"
  using assms
  by (simp add: run_parser_wrapper_def sys_exit_def error_list_parsers_eq)

theorem unknown_parser_exits_witness:
  "''audio'' \<notin> set (map fst PARSERS)
   \<and> run_parser_wrapper quiet_env ''audio'' (JStr ''/raw/snapshot.json'') [] ''once'' [] empty_world =
      (Inl (SystemExit 1),
       empty_world\<lparr>stdout :=
         [(''Error: Unknown parser. Available parsers:'', []),
          (''{}. {}'', [Val (JInt 1), Val (JStr ''pose'')]),
          (''{}. {}'', [Val (JInt 2), Val (JStr ''color_image'')]),
          (''{}. {}'', [Val (JInt 3), Val (JStr ''depth_image'')]),
          (''{}. {}'', [Val (JInt 4), Val (JStr ''feelings'')])]\<rparr>)
   \<and> exit_status (SystemExit 1) = 1"
  using unknown_parser_exits
    [of "''audio''" quiet_env "JStr ''/raw/snapshot.json''" "[]" "''once''" "[]" empty_world]
  by (simp add: registered_names quiet_env_def empty_world_def)

section \<open>Claims about message bodies that do not decode\<close>



lemma start_consuming_append:
  "start_consuming E n (xs @ ys) w =
     (case start_consuming E n xs w of
        (Inl e, w') \<Rightarrow> (Inl e, w')
      | (Inr u, w') \<Rightarrow> start_consuming E n ys w')"
  by (induction xs arbitrary: w) (auto split: prod.splits sum.splits)




section \<open>Claims about the reshaping of the depth image\<close>

lemma py_slice_forward:
  assumes "0 \<le> a" and "a \<le> b"
  shows "py_slice xs a b = take (nat (b - a)) (drop (nat a) xs)"
proof (cases "a \<le> int (length xs)")
  case True
  with assms show ?thesis
    by (auto simp: py_slice_def Let_def min_def nat_diff_distrib intro: take_all)
next
  case False
  with assms show ?thesis
    by (auto simp: py_slice_def Let_def min_def)
qed

lemma row_int:
  assumes "1 \<le> wd"
  shows "row (JArr xs) (JInt wd) (int i) = Inr (JArr (take (nat (wd - 1)) (drop (i * nat wd) xs)))"
proof -
  have "0 \<le> int i * wd" using assms by simp
  moreover have "int i * wd \<le> int i * wd + (wd - 1)" using assms by simp
  ultimately have "py_slice xs (int i * wd) (int i * wd + (wd - 1))
      = take (nat (int i * wd + (wd - 1) - int i * wd)) (drop (nat (int i * wd)) xs)"
    by (rule py_slice_forward)
  moreover have "nat (int i * wd) = i * nat wd"
    using assms by (simp add: nat_mult_distrib)
  ultimately show ?thesis
    by (simp add: row_def)
qed

lemma reshape_loop_rows:
  assumes "\<And>i. i \<in> set ns \<Longrightarrow> row image_array width (int i) = Inr (g i)"
  shows "reshape_loop image_array width ns acc = Inr (acc @ map g ns)"
  using assms by (induction ns arbitrary: acc) simp_all

text \<open>
  C5, as amended. For a depth image of integer width \<open>wd\<close> at least 1, integer height
  \<open>h\<close> and a flat array, there are \<open>h\<close> rows (none when \<open>h\<close> is not positive), and
  row \<open>i\<close> is the slice of the array that starts at index \<open>i * wd\<close> and has at most
  \<open>wd - 1\<close> elements: exactly \<open>wd - 1\<close> when the array reaches index
  \<open>i * wd + wd - 1\<close>, and fewer where the array ends earlier. With width 3, height 2
  and six values each of the two rows has exactly two elements.
\<close>

theorem reshape_rows:
  assumes "1 \<le> wd"
  shows "reshape (JArr xs) (JInt wd) (JInt h) =
      Inr (map (\<lambda>i. JArr (take (nat (wd - 1)) (drop (i * nat wd) xs))) [0..<nat h])
    \<and> (\<forall>i. i * nat wd + nat (wd - 1) \<le> length xs \<longrightarrow>
          length (take (nat (wd - 1)) (drop (i * nat wd) xs)) = nat (wd - 1))
    \<and> (length xs = 6 \<longrightarrow>
          reshape (JArr xs) (JInt 3) (JInt 2) = Inr [JArr (take 2 xs), JArr (take 2 (drop 3 xs))]
          \<and> length (take 2 xs) = 2 \<and> length (take 2 (drop 3 xs)) = 2)"
proof (intro conjI allI impI)
  show "reshape (JArr xs) (JInt wd) (JInt h) =
      Inr (map (\<lambda>i. JArr (take (nat (wd - 1)) (drop (i * nat wd) xs))) [0..<nat h])"
    using reshape_loop_rows[of "[0..<nat h]" "JArr xs" "JInt wd"
        "\<lambda>i. JArr (take (nat (wd - 1)) (drop (i * nat wd) xs))" "[]"] row_int[OF assms]
    by (simp add: reshape_def)
  show "length (take (nat (wd - 1)) (drop (i * nat wd) xs)) = nat (wd - 1)"
    if "i * nat wd + nat (wd - 1) \<le> length xs" for i
    using that by simp
  have three: "reshape (JArr xs) (JInt 3) (JInt 2) =
      Inr (map (\<lambda>i. JArr (take (nat (3 - 1)) (drop (i * nat 3) xs))) [0..<nat 2])"
    using reshape_loop_rows[of "[0..<nat 2]" "JArr xs" "JInt 3"
        "\<lambda>i. JArr (take (nat (3 - 1)) (drop (i * nat 3) xs))" "[]"] row_int[of 3]
    by (simp add: reshape_def)
  have upt2: "[0..<nat 2] = [0, 1]"
    by (simp add: upt_rec)
  show "reshape (JArr xs) (JInt 3) (JInt 2) = Inr [JArr (take 2 xs), JArr (take 2 (drop 3 xs))]"
    using three upt2 by simp
  show "length (take 2 xs) = 2" if "length xs = 6"
    using that by simp
  show "length (take 2 (drop 3 xs)) = 2" if "length xs = 6"
    using that by simp
qed

theorem reshape_rows_witness:
  "(1::int) \<le> 3
   \<and> reshape (JArr [JInt 10, JInt 11, JInt 12, JInt 13, JInt 14, JInt 15]) (JInt 3) (JInt 2)
       = Inr [JArr [JInt 10, JInt 11], JArr [JInt 13, JInt 14]]
   \<and> reshape (JArr [JInt 10, JInt 11, JInt 12, JInt 13]) (JInt 3) (JInt 2)
       = Inr [JArr [JInt 10, JInt 11], JArr [JInt 13]]"
  using reshape_rows[of 3 "[JInt 10, JInt 11, JInt 12, JInt 13, JInt 14, JInt 15]" 2]
    reshape_rows[of 3 "[JInt 10, JInt 11, JInt 12, JInt 13]" 2]
  by (simp add: upt_rec)

text \<open>
  Against C5 as stated: with width 0 and height 1 the one row is \<open>image_array[0:-1]\<close>,
  every value but the last; here it has two elements, while a slice of length
  \<open>width - 1\<close> starting at index 0 has none. And with width 3, height 2 and only
  four values the second row has one element, not \<open>width - 1\<close>.
\<close>

theorem reshape_zero_width:
  "reshape (JArr [JInt 10, JInt 11, JInt 12]) (JInt 0) (JInt 1) = Inr [JArr [JInt 10, JInt 11]]
   \<and> take (nat (0 - 1)) (drop (0 * nat 0) [JInt 10, JInt 11, JInt 12]) = []
   \<and> reshape (JArr [JInt 10, JInt 11, JInt 12, JInt 13]) (JInt 3) (JInt 2)
       = Inr [JArr [JInt 10, JInt 11], JArr [JInt 13]]"
  by (simp add: reshape_def row_def py_slice_def upt_rec)

section \<open>Claims about results and their publication\<close>

lemma then_do_InrE:
  assumes "then_do r f = (Inr y, w')"
  obtains x w1 where "r = (Inr x, w1)" and "f x w1 = (Inr y, w')"
  using assms by (auto simp: then_do_def split: prod.splits sum.splits)

lemma dict_literal_key_first:
  assumes "dict_literal snap ((''user_id'', Get ''user_id'') # (''datetime'', Get ''datetime'') # rest) = Inr res"
    and "''user_id'' \<notin> fst ` set rest" and "''datetime'' \<notin> fst ` set rest"
  shows "\<exists>uid dt. getitem snap ''user_id'' = Inr uid \<and> getitem (JObj res) ''user_id'' = Inr uid
     \<and> getitem snap ''datetime'' = Inr dt \<and> getitem (JObj res) ''datetime'' = Inr dt"
proof -
  have keys: "dict_literal snap es = Inr r \<Longrightarrow> map fst r = map fst es" for es r
  proof (induction es arbitrary: r)
    case Nil
    then show ?case by simp
  next
    case (Cons e es)
    obtain k it where e: "e = (k, it)" by (cases e)
    show ?case
      using Cons e by (cases it) (auto split: sum.splits)
  qed
  from assms(1) obtain uid dt r' where
    g: "getitem snap ''user_id'' = Inr uid" "getitem snap ''datetime'' = Inr dt"
    and r': "dict_literal snap rest = Inr r'" and res: "res = (''user_id'', uid) # (''datetime'', dt) # r'"
    by (auto split: sum.splits)
  from keys[OF r'] have "fst ` set r' = fst ` set rest"
    by (metis set_map)
  with assms(2,3) have no: "''user_id'' \<notin> fst ` set r'" "''datetime'' \<notin> fst ` set r'"
    by simp_all
  then have "map_of (rev r') ''user_id'' = None" "map_of (rev r') ''datetime'' = None"
    by (simp_all add: map_of_eq_None_iff)
  then have "getitem (JObj res) ''user_id'' = Inr uid" "getitem (JObj res) ''datetime'' = Inr dt"
    by (simp_all add: getitem_def res map_add_def)
  with g show ?thesis by blast
qed

lemma pose_result_key:
  assumes "pose E data w = (Inr (Some out), w')"
  shows "\<exists>snap res uid dt. json_loads data = Inr snap \<and> json_loads out = Inr (JObj res)
     \<and> getitem snap ''user_id'' = Inr uid \<and> getitem (JObj res) ''user_id'' = Inr uid
     \<and> getitem snap ''datetime'' = Inr dt \<and> getitem (JObj res) ''datetime'' = Inr dt"
proof -
  from assms obtain snap res where "json_loads data = Inr snap"
    and "dict_literal snap pose_result = Inr res" and "out = JsonText (JObj res)"
    unfolding pose_def
    by (elim then_do_InrE) (auto simp: Let_def json_dumps_def split: sum.splits py_error.splits)
  moreover from this(2) have "\<exists>uid dt. getitem snap ''user_id'' = Inr uid \<and> getitem (JObj res) ''user_id'' = Inr uid
     \<and> getitem snap ''datetime'' = Inr dt \<and> getitem (JObj res) ''datetime'' = Inr dt"
    unfolding pose_result_def by (rule dict_literal_key_first) simp_all
  ultimately show ?thesis by auto
qed

lemma feelings_result_key:
  assumes "feelings E data w = (Inr (Some out), w')"
  shows "\<exists>snap res uid dt. json_loads data = Inr snap \<and> json_loads out = Inr (JObj res)
     \<and> getitem snap ''user_id'' = Inr uid \<and> getitem (JObj res) ''user_id'' = Inr uid
     \<and> getitem snap ''datetime'' = Inr dt \<and> getitem (JObj res) ''datetime'' = Inr dt"
proof -
  from assms obtain snap res where "json_loads data = Inr snap"
    and "dict_literal snap feelings_result = Inr res" and "out = JsonText (JObj res)"
    unfolding feelings_def
    by (elim then_do_InrE) (auto simp: Let_def json_dumps_def split: sum.splits py_error.splits)
  moreover from this(2) have "\<exists>uid dt. getitem snap ''user_id'' = Inr uid \<and> getitem (JObj res) ''user_id'' = Inr uid
     \<and> getitem snap ''datetime'' = Inr dt \<and> getitem (JObj res) ''datetime'' = Inr dt"
    unfolding feelings_result_def by (rule dict_literal_key_first) simp_all
  ultimately show ?thesis by auto
qed

lemma color_image_try_result_key:
  assumes "color_image_try E snap w = (Inr (Some out), w')"
  shows "\<exists>res uid dt. json_loads out = Inr (JObj res)
     \<and> getitem snap ''user_id'' = Inr uid \<and> getitem (JObj res) ''user_id'' = Inr uid
     \<and> getitem snap ''datetime'' = Inr dt \<and> getitem (JObj res) ''datetime'' = Inr dt"
proof -
  from assms obtain res p where
    "dict_literal snap
         [(''user_id'', Get ''user_id''),
          (''datetime'', Get ''datetime''),
          (''color_image_path'', Lit (JStr p)),
          (''height'', Get ''color_image_height''),
          (''width'', Get ''color_image_width'')] = Inr res" and "out = JsonText (JObj res)"
    unfolding color_image_try_def Let_def
    by (elim then_do_InrE) (auto simp: json_dumps_def)
  moreover from this(1) have "\<exists>uid dt. getitem snap ''user_id'' = Inr uid \<and> getitem (JObj res) ''user_id'' = Inr uid
     \<and> getitem snap ''datetime'' = Inr dt \<and> getitem (JObj res) ''datetime'' = Inr dt"
    by (rule dict_literal_key_first) simp_all
  ultimately show ?thesis by auto
qed

lemma depth_image_try_result_key:
  assumes "depth_image_try E snap w = (Inr (Some out), w')"
  shows "\<exists>res uid dt. json_loads out = Inr (JObj res)
     \<and> getitem snap ''user_id'' = Inr uid \<and> getitem (JObj res) ''user_id'' = Inr uid
     \<and> getitem snap ''datetime'' = Inr dt \<and> getitem (JObj res) ''datetime'' = Inr dt"
proof -
  from assms obtain res p where
    "dict_literal snap
         [(''user_id'', Get ''user_id''),
          (''datetime'', Get ''datetime''),
          (''height'', Get ''depth_image_height''),
          (''width'', Get ''depth_image_width''),
          (''depth_image_path'', Lit (JStr p))] = Inr res" and "out = JsonText (JObj res)"
    unfolding depth_image_try_def Let_def
    by (elim then_do_InrE) (auto simp: json_dumps_def)
  moreover from this(1) have "\<exists>uid dt. getitem snap ''user_id'' = Inr uid \<and> getitem (JObj res) ''user_id'' = Inr uid
     \<and> getitem snap ''datetime'' = Inr dt \<and> getitem (JObj res) ''datetime'' = Inr dt"
    by (rule dict_literal_key_first) simp_all
  ultimately show ?thesis by auto
qed

lemma color_image_result_key:
  assumes "color_image E data w = (Inr (Some out), w')"
  shows "\<exists>snap res uid dt. json_loads data = Inr snap \<and> json_loads out = Inr (JObj res)
     \<and> getitem snap ''user_id'' = Inr uid \<and> getitem (JObj res) ''user_id'' = Inr uid
     \<and> getitem snap ''datetime'' = Inr dt \<and> getitem (JObj res) ''datetime'' = Inr dt"
proof -
  from assms obtain snap w1 w2 where "json_loads data = Inr snap"
    and "color_image_try E snap w1 = (Inr (Some out), w2)"
    unfolding color_image_def
    by (elim then_do_InrE) (auto simp: Let_def split: prod.splits sum.splits py_error.splits)
  then show ?thesis
    using color_image_try_result_key by blast
qed

lemma depth_image_result_key:
  assumes "depth_image E data w = (Inr (Some out), w')"
  shows "\<exists>snap res uid dt. json_loads data = Inr snap \<and> json_loads out = Inr (JObj res)
     \<and> getitem snap ''user_id'' = Inr uid \<and> getitem (JObj res) ''user_id'' = Inr uid
     \<and> getitem snap ''datetime'' = Inr dt \<and> getitem (JObj res) ''datetime'' = Inr dt"
proof -
  from assms obtain snap w1 w2 where "json_loads data = Inr snap"
    and "depth_image_try E snap w1 = (Inr (Some out), w2)"
    unfolding depth_image_def
    by (elim then_do_InrE) (auto simp: Let_def split: prod.splits sum.splits py_error.splits)
  then show ?thesis
    using depth_image_try_result_key by blast
qed

lemma run_parser_result_key:
  assumes "parser_name \<in> set (map fst PARSERS)"
    and "run_parser E parser_name data w = (Inr (Some out), w')"
  shows "\<exists>snap res uid dt. json_loads data = Inr snap \<and> json_loads out = Inr (JObj res)
     \<and> getitem snap ''user_id'' = Inr uid \<and> getitem (JObj res) ''user_id'' = Inr uid
     \<and> getitem snap ''datetime'' = Inr dt \<and> getitem (JObj res) ''datetime'' = Inr dt"
  using assms(1)
proof (cases rule: registered_cases)
  case 1
  with assms(2) have "pose E data w = (Inr (Some out), w')"
    by (simp add: run_parser_simps)
  then show ?thesis by (rule pose_result_key)
next
  case 2
  with assms(2) have "color_image E data w = (Inr (Some out), w')"
    by (simp add: run_parser_simps)
  then show ?thesis by (rule color_image_result_key)
next
  case 3
  with assms(2) have "depth_image E data w = (Inr (Some out), w')"
    by (simp add: run_parser_simps)
  then show ?thesis by (rule depth_image_result_key)
next
  case 4
  with assms(2) have "feelings E data w = (Inr (Some out), w')"
    by (simp add: run_parser_simps)
  then show ?thesis by (rule feelings_result_key)
qed

text \<open>
  C3. For every registered parser and every input on which it returns a result, the input
  decodes to a snapshot, the result is the text of a record, and the record's
  \<open>user_id\<close> and \<open>datetime\<close> are those of the snapshot.
\<close>

theorem result_keeps_correlation_key:
  assumes "parser_name \<in> set (map fst PARSERS)"
    and "run_parser E parser_name data w = (Inr (Some out), w')"
  shows "\<exists>snap res uid dt. json_loads data = Inr snap \<and> json_loads out = Inr (JObj res)
     \<and> getitem snap ''user_id'' = Inr uid \<and> getitem (JObj res) ''user_id'' = Inr uid
     \<and> getitem snap ''datetime'' = Inr dt \<and> getitem (JObj res) ''datetime'' = Inr dt"
  using assms by (rule run_parser_result_key)

theorem result_keeps_correlation_key_witness:
  "''pose'' \<in> set (map fst PARSERS)
   \<and> fst (run_parser quiet_env ''pose'' (JsonText pose_snapshot) empty_world)
       = Inr (Some (JsonText (JObj pose_record)))
   \<and> (\<exists>snap res uid dt. json_loads (JsonText pose_snapshot) = Inr snap
        \<and> json_loads (JsonText (JObj pose_record)) = Inr (JObj res)
        \<and> getitem snap ''user_id'' = Inr uid \<and> getitem (JObj res) ''user_id'' = Inr uid
        \<and> getitem snap ''datetime'' = Inr dt \<and> getitem (JObj res) ''datetime'' = Inr dt)"
proof -
  have run: "run_parser quiet_env ''pose'' (JsonText pose_snapshot) empty_world =
      (Inr (Some (JsonText (JObj pose_record))),
       logging_debug ''Received Snapshot from user {}, Snapshot {}''
         [Val (JStr ''u1''), Val (JStr ''d1'')] empty_world)"
    by (simp add: run_parser_simps pose_def pose_result_def pose_snapshot_def pose_record_def
        getitem_def json_dumps_def)
  have reg: "''pose'' \<in> set (map fst PARSERS)"
    by (simp add: registered_names)
  from result_keeps_correlation_key[OF reg run] run reg show ?thesis
    by simp
qed

lemma keeps_mq_then_do:
  assumes "mq_calls (snd r) = m"
    and "\<And>x w1. mq_calls w1 = m \<Longrightarrow> mq_calls (snd (f x w1)) = m"
  shows "mq_calls (snd (then_do r f)) = m"
  using assms by (cases r) (auto simp: then_do_def split: sum.splits)

lemma keeps_mq_call_io: "mq_calls (snd (call_io E c w)) = mq_calls w"
  by (simp add: call_io_def split: option.splits)

lemma keeps_mq_open_read: "mq_calls (snd (open_read E p mode w)) = mq_calls w"
  unfolding open_read_def by (rule keeps_mq_then_do) (simp_all add: keeps_mq_call_io)

lemma keeps_mq_pose: "mq_calls (snd (pose E data w)) = mq_calls w"
  unfolding pose_def
  by (intro keeps_mq_then_do)
    (simp_all add: Let_def logging_debug_def logging_error_def split: sum.splits py_error.splits)

lemma keeps_mq_feelings: "mq_calls (snd (feelings E data w)) = mq_calls w"
  unfolding feelings_def
  by (intro keeps_mq_then_do)
    (simp_all add: Let_def logging_debug_def logging_error_def split: sum.splits py_error.splits)

lemma keeps_mq_color_image_try: "mq_calls (snd (color_image_try E snap w)) = mq_calls w"
  unfolding color_image_try_def Let_def
  by (intro keeps_mq_then_do) (simp_all add: keeps_mq_call_io keeps_mq_open_read)

lemma keeps_mq_depth_image_try: "mq_calls (snd (depth_image_try E snap w)) = mq_calls w"
  unfolding depth_image_try_def Let_def
  by (intro keeps_mq_then_do) (simp_all add: keeps_mq_call_io keeps_mq_open_read)

lemma keeps_mq_color_image: "mq_calls (snd (color_image E data w)) = mq_calls w"
proof -
  have "mq_calls (snd (case color_image_try E snap w1 of
          (Inl (KeyError k), w) \<Rightarrow> (Inr None, logging_error a (b k) w)
        | (Inl (OSError m), w) \<Rightarrow> (Inr None, logging_error c (d m) w)
        | r \<Rightarrow> r)) = mq_calls w1" for snap w1 a b c d
    using keeps_mq_color_image_try[of E snap w1]
    by (auto simp: logging_error_def split: prod.splits sum.splits py_error.splits)
  then show ?thesis
    unfolding color_image_def Let_def
    by (intro keeps_mq_then_do) (simp_all add: logging_debug_def)
qed

lemma keeps_mq_depth_image: "mq_calls (snd (depth_image E data w)) = mq_calls w"
proof -
  have "mq_calls (snd (case depth_image_try E snap w1 of
          (Inl (KeyError k), w) \<Rightarrow> (Inr None, logging_error a (b k) w)
        | (Inl (OSError m), w) \<Rightarrow> (Inr None, logging_error c (d m) w)
        | r \<Rightarrow> r)) = mq_calls w1" for snap w1 a b c d
    using keeps_mq_depth_image_try[of E snap w1]
    by (auto simp: logging_error_def split: prod.splits sum.splits py_error.splits)
  then show ?thesis
    unfolding depth_image_def Let_def
    by (intro keeps_mq_then_do) (simp_all add: logging_debug_def)
qed

lemma keeps_mq_run_parser: "mq_calls (snd (run_parser E parser_name data w)) = mq_calls w"
  by (auto simp: run_parser_def PARSERS_eq keeps_mq_pose keeps_mq_feelings
      keeps_mq_color_image keeps_mq_depth_image)

lemma parser_callback_publishes:
  assumes "parser_name \<in> set (map fst PARSERS)"
    and "run_parser E parser_name body w = (r, w1)"
    and "mq_fault E Channel = None"
    and "mq_fault E (ExchangeDeclare EXCHANGE_PUBLISH ''topic'') = None"
    and "\<forall>result. mq_fault E (BasicPublish EXCHANGE_PUBLISH parser_name result) = None"
  shows "(\<forall>result. r = Inr (Some result) \<longrightarrow>
           (\<exists>w2. parser_callback E parser_name body w = (Inr (), w2)
              \<and> mq_calls w2 = mq_calls w @
                   [Channel, ExchangeDeclare EXCHANGE_PUBLISH ''topic'',
                    BasicPublish EXCHANGE_PUBLISH parser_name result]))
       \<and> (r = Inr None \<longrightarrow>
             parser_callback E parser_name body w = (Inr (), w1) \<and> mq_calls w1 = mq_calls w)
       \<and> EXCHANGE_PUBLISH = ''processed_data'' \<and> EXCHANGE_PUBLISH \<noteq> EXCHANGE_NAME"
proof (intro conjI allI impI)
  have mq1: "mq_calls w1 = mq_calls w"
    using keeps_mq_run_parser[of E parser_name body w] assms(2) by simp
  show "\<exists>w2. parser_callback E parser_name body w = (Inr (), w2)
      \<and> mq_calls w2 = mq_calls w @
           [Channel, ExchangeDeclare EXCHANGE_PUBLISH ''topic'',
            BasicPublish EXCHANGE_PUBLISH parser_name result]"
    if "r = Inr (Some result)" for result
  proof -
    from that assms(2) have run: "run_parser E parser_name body w = (Inr (Some result), w1)"
      by simp
    from run_parser_result_key[OF assms(1) run] obtain res uid dt
      where res: "json_loads result = Inr (JObj res)"
        "getitem (JObj res) ''user_id'' = Inr uid" "getitem (JObj res) ''datetime'' = Inr dt"
      by blast
    have "parser_callback E parser_name body w =
        (Inr (),
         (logging_debug ''Publishing Back to MQ Data processed by {}, user {}, Snapshot {}''
            [Val (JStr parser_name), Val uid, Val dt]
            (w1\<lparr>mq_calls := mq_calls w1 @ [Channel, ExchangeDeclare EXCHANGE_PUBLISH ''topic'']\<rparr>))
         \<lparr>mq_calls := mq_calls w1 @
            [Channel, ExchangeDeclare EXCHANGE_PUBLISH ''topic'',
             BasicPublish EXCHANGE_PUBLISH parser_name result]\<rparr>)"
      using assms(3,4,5) res
      by (simp add: parser_callback_def run call_mq_def logging_debug_def)
    then show ?thesis
      using mq1 by simp
  qed
  show "parser_callback E parser_name body w = (Inr (), w1)" if "r = Inr None"
    using that assms(2) by (simp add: parser_callback_def)
  show "mq_calls w1 = mq_calls w" if "r = Inr None"
    by (rule mq1)
  show "EXCHANGE_PUBLISH = ''processed_data''"
    by (simp add: EXCHANGE_PUBLISH_def)
  show "EXCHANGE_PUBLISH \<noteq> EXCHANGE_NAME"
    by (simp add: EXCHANGE_PUBLISH_def EXCHANGE_NAME_def)
qed

lemma service_try_setup:
  assumes "\<forall>c. mq_fault E c = None"
  shows "run_parser_service_try E parser_name mq deliveries w =
    start_consuming E parser_name deliveries
      (w\<lparr>mq_calls := mq_calls w @
           [BlockingConnection mq, Channel, ExchangeDeclare EXCHANGE_NAME ''direct'',
            QueueDeclare parser_name True, QueueBind EXCHANGE_NAME parser_name EXCHANGE_NAME,
            BasicConsume parser_name True],
         stdout := stdout w @
           [(''{}'', [Val (JStr mq)]), (''{}: Starting to consume'', [Val (JStr parser_name)])]\<rparr>)"
  using assms by (simp add: run_parser_service_try_def call_mq_def print_def)

lemma service_returns_iff:
  "run_parser_service E parser_name mq deliveries w = (Inr u, w')
    \<longleftrightarrow> run_parser_service_try E parser_name mq deliveries w = (Inr u, w')"
  by (auto simp: run_parser_service_def exit_run_def sys_exit_def
      split: prod.splits sum.splits py_error.splits if_splits)

lemma loop_step:
  assumes "parser_name \<in> set (map fst PARSERS)"
    and "\<forall>c. mq_fault E c = None"
    and "run_parser E parser_name body w0 = (r, w1)"
    and "start_consuming E parser_name before w = (Inr (), w0)"
  shows "(\<forall>result. r = Inr (Some result) \<longrightarrow>
           (\<exists>w2. start_consuming E parser_name (before @ [body]) w = (Inr (), w2)
              \<and> mq_calls w2 = mq_calls w0 @
                   [Channel, ExchangeDeclare EXCHANGE_PUBLISH ''topic'',
                    BasicPublish EXCHANGE_PUBLISH parser_name result]))
       \<and> (r = Inr None \<longrightarrow>
             start_consuming E parser_name (before @ [body]) w = (Inr (), w1)
             \<and> mq_calls w1 = mq_calls w0)"
proof -
  have step: "start_consuming E parser_name (before @ [body]) w =
      (case parser_callback E parser_name body w0 of
         (Inl e, w') \<Rightarrow> (Inl e, w') | (Inr u, w') \<Rightarrow> (Inr (), w'))"
    using assms(4) by (simp add: start_consuming_append split: prod.splits sum.splits)
  have ok: "mq_fault E c = None" for c
    using assms(2) by simp
  note cb = parser_callback_publishes[OF assms(1,3) ok ok]
  show ?thesis
  proof (intro conjI allI impI)
    fix result assume "r = Inr (Some result)"
    with cb ok obtain w2 where "parser_callback E parser_name body w0 = (Inr (), w2)"
      and "mq_calls w2 = mq_calls w0 @
                   [Channel, ExchangeDeclare EXCHANGE_PUBLISH ''topic'',
                    BasicPublish EXCHANGE_PUBLISH parser_name result]"
      by blast
    then show "\<exists>w2. start_consuming E parser_name (before @ [body]) w = (Inr (), w2)
              \<and> mq_calls w2 = mq_calls w0 @
                   [Channel, ExchangeDeclare EXCHANGE_PUBLISH ''topic'',
                    BasicPublish EXCHANGE_PUBLISH parser_name result]"
      by (simp add: step)
  next
    assume "r = Inr None"
    with cb ok have "parser_callback E parser_name body w0 = (Inr (), w1)"
      and "mq_calls w1 = mq_calls w0"
      by blast+
    then show "start_consuming E parser_name (before @ [body]) w = (Inr (), w1)"
      and "mq_calls w1 = mq_calls w0"
      by (simp_all add: step)
  qed
qed

text \<open>
  C8. Take a registered parser, a broker that accepts every call, and a service that has
  consumed the deliveries \<open>before\<close> and is waiting in the world \<open>w0\<close>. When the
  next body is delivered and the parser returns a result on it, the service, through
  \<open>start_consuming\<close> and the callback, opens a channel, declares the topic exchange
  \<open>processed_data\<close>, which is not the inbound exchange, and publishes exactly that
  result on it with the parser's name as routing key; these are its only broker calls for
  that delivery, and it goes back to waiting. When the parser returns \<open>None\<close> the
  service goes back to waiting with no broker call made. This holds of the consuming loop
  \<open>start_consuming\<close> and of the whole of \<open>run_parser_service\<close>.
\<close>

theorem service_publishes_each_result:
  assumes "parser_name \<in> set (map fst PARSERS)"
    and "\<forall>c. mq_fault E c = None"
    and "run_parser E parser_name body w0 = (r, w1)"
  shows
    "(start_consuming E parser_name before w = (Inr (), w0) \<longrightarrow>
        (\<forall>result. r = Inr (Some result) \<longrightarrow>
           (\<exists>w2. start_consuming E parser_name (before @ [body]) w = (Inr (), w2)
              \<and> mq_calls w2 = mq_calls w0 @
                   [Channel, ExchangeDeclare EXCHANGE_PUBLISH ''topic'',
                    BasicPublish EXCHANGE_PUBLISH parser_name result]))
        \<and> (r = Inr None \<longrightarrow>
             start_consuming E parser_name (before @ [body]) w = (Inr (), w1)
             \<and> mq_calls w1 = mq_calls w0))
     \<and> (run_parser_service E parser_name mq before w = (Inr (), w0) \<longrightarrow>
        (\<forall>result. r = Inr (Some result) \<longrightarrow>
           (\<exists>w2. run_parser_service E parser_name mq (before @ [body]) w = (Inr (), w2)
              \<and> mq_calls w2 = mq_calls w0 @
                   [Channel, ExchangeDeclare EXCHANGE_PUBLISH ''topic'',
                    BasicPublish EXCHANGE_PUBLISH parser_name result]))
        \<and> (r = Inr None \<longrightarrow>
             run_parser_service E parser_name mq (before @ [body]) w = (Inr (), w1)
             \<and> mq_calls w1 = mq_calls w0))
     \<and> EXCHANGE_PUBLISH = ''processed_data'' \<and> EXCHANGE_PUBLISH \<noteq> EXCHANGE_NAME"
proof (intro conjI)
  show "start_consuming E parser_name before w = (Inr (), w0) \<longrightarrow>
        (\<forall>result. r = Inr (Some result) \<longrightarrow>
           (\<exists>w2. start_consuming E parser_name (before @ [body]) w = (Inr (), w2)
              \<and> mq_calls w2 = mq_calls w0 @
                   [Channel, ExchangeDeclare EXCHANGE_PUBLISH ''topic'',
                    BasicPublish EXCHANGE_PUBLISH parser_name result]))
        \<and> (r = Inr None \<longrightarrow>
             start_consuming E parser_name (before @ [body]) w = (Inr (), w1)
             \<and> mq_calls w1 = mq_calls w0)"
    using loop_step[OF assms] by blast
  show "run_parser_service E parser_name mq before w = (Inr (), w0) \<longrightarrow>
        (\<forall>result. r = Inr (Some result) \<longrightarrow>
           (\<exists>w2. run_parser_service E parser_name mq (before @ [body]) w = (Inr (), w2)
              \<and> mq_calls w2 = mq_calls w0 @
                   [Channel, ExchangeDeclare EXCHANGE_PUBLISH ''topic'',
                    BasicPublish EXCHANGE_PUBLISH parser_name result]))
        \<and> (r = Inr None \<longrightarrow>
             run_parser_service E parser_name mq (before @ [body]) w = (Inr (), w1)
             \<and> mq_calls w1 = mq_calls w0)"
  proof
    assume "run_parser_service E parser_name mq before w = (Inr (), w0)"
    then have "run_parser_service_try E parser_name mq before w = (Inr (), w0)"
      by (simp add: service_returns_iff)
    from loop_step[OF assms this[unfolded service_try_setup[OF assms(2)]]]
    show "(\<forall>result. r = Inr (Some result) \<longrightarrow>
           (\<exists>w2. run_parser_service E parser_name mq (before @ [body]) w = (Inr (), w2)
              \<and> mq_calls w2 = mq_calls w0 @
                   [Channel, ExchangeDeclare EXCHANGE_PUBLISH ''topic'',
                    BasicPublish EXCHANGE_PUBLISH parser_name result]))
        \<and> (r = Inr None \<longrightarrow>
             run_parser_service E parser_name mq (before @ [body]) w = (Inr (), w1)
             \<and> mq_calls w1 = mq_calls w0)"
      unfolding service_returns_iff service_try_setup[OF assms(2)] .
  qed
  show "EXCHANGE_PUBLISH = ''processed_data''"
    by (simp add: EXCHANGE_PUBLISH_def)
  show "EXCHANGE_PUBLISH \<noteq> EXCHANGE_NAME"
    by (simp add: EXCHANGE_PUBLISH_def EXCHANGE_NAME_def)
qed

theorem service_publishes_each_result_witness:
  "''pose'' \<in> set (map fst PARSERS)
   \<and> (\<forall>c. mq_fault quiet_env c = None)
   \<and> fst (run_parser_service quiet_env ''pose'' ''localhost'' [JsonText color_snapshot] empty_world)
       = Inr ()
   \<and> mq_calls (snd (run_parser_service quiet_env ''pose'' ''localhost''
        [JsonText color_snapshot] empty_world)) =
       [BlockingConnection ''localhost'', Channel, ExchangeDeclare ''snapshot'' ''direct'',
        QueueDeclare ''pose'' True, QueueBind ''snapshot'' ''pose'' ''snapshot'',
        BasicConsume ''pose'' True]
   \<and> fst (run_parser_service quiet_env ''pose'' ''localhost''
        [JsonText color_snapshot, JsonText pose_snapshot] empty_world) = Inr ()
   \<and> mq_calls (snd (run_parser_service quiet_env ''pose'' ''localhost''
        [JsonText color_snapshot, JsonText pose_snapshot] empty_world)) =
       [BlockingConnection ''localhost'', Channel, ExchangeDeclare ''snapshot'' ''direct'',
        QueueDeclare ''pose'' True, QueueBind ''snapshot'' ''pose'' ''snapshot'',
        BasicConsume ''pose'' True,
        Channel, ExchangeDeclare ''processed_data'' ''topic'',
        BasicPublish ''processed_data'' ''pose'' (JsonText (JObj pose_record))]"
proof -
  have reg: "''pose'' \<in> set (map fst PARSERS)"
    by (simp add: registered_names)
  have ok: "\<forall>c. mq_fault quiet_env c = None"
    by (simp add: quiet_env_def)
  have rejected: "run_parser quiet_env ''pose'' (JsonText color_snapshot) w =
      (Inr None,
       logging_error ''Snapshot {} from user {} did not contain necessary pose data: {}''
         [Val (JStr ''d1''), Val (JStr ''u1''), Exc (KeyError ''pose_rotation_x'')]
         (logging_debug ''Received Snapshot from user {}, Snapshot {}''
           [Val (JStr ''u1''), Val (JStr ''d1'')] w))" for w
    by (simp add: run_parser_simps pose_def pose_result_def color_snapshot_def getitem_def)
  obtain w0 where S: "run_parser_service quiet_env ''pose'' ''localhost''
        [JsonText color_snapshot] empty_world = (Inr (), w0)"
    and M: "mq_calls w0 =
       [BlockingConnection ''localhost'', Channel, ExchangeDeclare ''snapshot'' ''direct'',
        QueueDeclare ''pose'' True, QueueBind ''snapshot'' ''pose'' ''snapshot'',
        BasicConsume ''pose'' True]"
    by (simp add: service_returns_iff service_try_setup[OF ok] parser_callback_def rejected
        logging_error_def logging_debug_def empty_world_def EXCHANGE_NAME_def)
  obtain w1 where R: "run_parser quiet_env ''pose'' (JsonText pose_snapshot) w0 =
      (Inr (Some (JsonText (JObj pose_record))), w1)"
    by (simp add: run_parser_simps pose_def pose_result_def pose_snapshot_def pose_record_def
        getitem_def json_dumps_def)
  from service_publishes_each_result[OF reg ok R, of "[JsonText color_snapshot]" empty_world
      "''localhost''"] S
  obtain w2 where "run_parser_service quiet_env ''pose'' ''localhost''
        ([JsonText color_snapshot] @ [JsonText pose_snapshot]) empty_world = (Inr (), w2)"
    and "mq_calls w2 = mq_calls w0 @
        [Channel, ExchangeDeclare EXCHANGE_PUBLISH ''topic'',
         BasicPublish EXCHANGE_PUBLISH ''pose'' (JsonText (JObj pose_record))]"
    by blast
  then have T: "run_parser_service quiet_env ''pose'' ''localhost''
        [JsonText color_snapshot, JsonText pose_snapshot] empty_world = (Inr (), w2)"
    and N: "mq_calls w2 =
       [BlockingConnection ''localhost'', Channel, ExchangeDeclare ''snapshot'' ''direct'',
        QueueDeclare ''pose'' True, QueueBind ''snapshot'' ''pose'' ''snapshot'',
        BasicConsume ''pose'' True,
        Channel, ExchangeDeclare ''processed_data'' ''topic'',
        BasicPublish ''processed_data'' ''pose'' (JsonText (JObj pose_record))]"
    by (simp_all add: M EXCHANGE_PUBLISH_def)
  show ?thesis
    using reg ok S M T N by simp
qed

section \<open>Claims about failing reads and writes\<close>

lemma color_image_OSError:
  assumes "getitem snap ''user_id'' = Inr uid" and "getitem snap ''datetime'' = Inr dt"
    and "color_image_try E snap
           (logging_debug ''Received Snapshot from user {}, Snapshot {}'' [Val uid, Val dt] w)
         = (Inl (OSError m), w2)"
  shows "color_image E (JsonText snap) w =
    (Inr None, logging_error ''Error: file error: {}'' [Exc (OSError m)] w2)"
  using assms by (simp add: color_image_def)

lemma depth_image_OSError:
  assumes "getitem snap ''user_id'' = Inr uid" and "getitem snap ''datetime'' = Inr dt"
    and "depth_image_try E snap
           (logging_debug ''Received Snapshot from user {}, Snapshot {}'' [Val uid, Val dt] w)
         = (Inl (OSError m), w2)"
  shows "depth_image E (JsonText snap) w =
    (Inr None,
     logging_error ''Error: file error for snapshot {} by user {}: {}''
       [Val dt, Val uid, Exc (OSError m)] w2)"
  using assms by (simp add: depth_image_def)

lemma color_image_try_open_fails:
  assumes "getitem snap ''color_image_path'' = Inr path"
    and "io_fault E (Open path ''rb'') = Some (OSError m)"
  shows "color_image_try E snap w = (Inl (OSError m), w)"
  using assms by (simp add: color_image_try_def open_read_def call_io_def)

lemma depth_image_try_open_fails:
  assumes "getitem snap ''depth_image_path'' = Inr path"
    and "io_fault E (Open path ''r'') = Some (OSError m)"
  shows "depth_image_try E snap w = (Inl (OSError m), w)"
  using assms by (simp add: depth_image_try_def open_read_def call_io_def)

lemma color_image_try_save_fails:
  assumes "getitem snap ''user_id'' = Inr uid" and "getitem snap ''datetime'' = Inr dt"
    and "getitem snap ''color_image_path'' = Inr path"
    and "getitem snap ''color_image_width'' = Inr wd"
    and "getitem snap ''color_image_height'' = Inr h"
    and "io_fault E (Open path ''rb'') = None"
    and "io_fault E (Mkdir (PROCESSED_DIRECTORY E)) = None"
    and "io_fault E (Frombytes wd h (file_content E path)) = None"
    and "io_fault E (Save (PROCESSED_DIRECTORY E @ ''/'' @ py_str E uid @ ''_'' @ py_str E dt @ ''_color.jpg'')
           wd h (file_content E path)) = Some (OSError m)"
  shows "color_image_try E snap w =
    (Inl (OSError m),
     w\<lparr>io_calls := io_calls w @
        [Open path ''rb'', Mkdir (PROCESSED_DIRECTORY E), Frombytes wd h (file_content E path)]\<rparr>)"
  using assms by (simp add: color_image_try_def open_read_def call_io_def)

lemma depth_image_try_savefig_fails:
  assumes "getitem snap ''user_id'' = Inr uid" and "getitem snap ''datetime'' = Inr dt"
    and "getitem snap ''depth_image_path'' = Inr path"
    and "getitem snap ''depth_image_width'' = Inr wd"
    and "getitem snap ''depth_image_height'' = Inr h"
    and "io_fault E (Open path ''r'') = None"
    and "file_content E path = JsonText data_json"
    and "getitem data_json ''data'' = Inr image_array"
    and "reshape image_array wd h = Inr rows"
    and "io_fault E (Mkdir (PROCESSED_DIRECTORY E)) = None"
    and "io_fault E (Imshow rows) = None"
    and "io_fault E (Savefig (PROCESSED_DIRECTORY E @ ''/'' @ py_str E uid @ ''_'' @ py_str E dt @ ''_depth.jpg'')
           rows) = Some (OSError m)"
  shows "depth_image_try E snap w =
    (Inl (OSError m),
     w\<lparr>io_calls := io_calls w @ [Open path ''r'', Mkdir (PROCESSED_DIRECTORY E), Imshow rows]\<rparr>)"
  using assms by (simp add: depth_image_try_def open_read_def call_io_def)

text \<open>
  C9. For \<open>color_image\<close> and \<open>depth_image\<close> on a snapshot that carries
  \<open>user_id\<close> and \<open>datetime\<close>: whenever the guarded block ends in an
  \<open>OSError\<close>, wherever it arose, the parser logs an error record and returns
  \<open>None\<close>, and nothing is raised. In particular this is what happens when opening the
  source file fails with \<open>OSError\<close>, and when every earlier step went through and
  saving the derived image (\<open>img.save\<close>, \<open>plt.savefig\<close>) fails with
  \<open>OSError\<close>.
\<close>

theorem io_failure_rejects:
  assumes "getitem snap ''user_id'' = Inr uid" and "getitem snap ''datetime'' = Inr dt"
  shows
    "(color_image_try E snap
        (logging_debug ''Received Snapshot from user {}, Snapshot {}'' [Val uid, Val dt] w)
        = (Inl (OSError m), w2) \<longrightarrow>
      color_image E (JsonText snap) w =
        (Inr None, logging_error ''Error: file error: {}'' [Exc (OSError m)] w2))
   \<and> (depth_image_try E snap
        (logging_debug ''Received Snapshot from user {}, Snapshot {}'' [Val uid, Val dt] w)
        = (Inl (OSError m), w3) \<longrightarrow>
      depth_image E (JsonText snap) w =
        (Inr None,
         logging_error ''Error: file error for snapshot {} by user {}: {}''
           [Val dt, Val uid, Exc (OSError m)] w3))
   \<and> (getitem snap ''color_image_path'' = Inr path
        \<and> io_fault E (Open path ''rb'') = Some (OSError m) \<longrightarrow>
      color_image E (JsonText snap) w =
        (Inr None,
         logging_error ''Error: file error: {}'' [Exc (OSError m)]
           (logging_debug ''Received Snapshot from user {}, Snapshot {}'' [Val uid, Val dt] w)))
   \<and> (getitem snap ''depth_image_path'' = Inr dpath
        \<and> io_fault E (Open dpath ''r'') = Some (OSError m) \<longrightarrow>
      depth_image E (JsonText snap) w =
        (Inr None,
         logging_error ''Error: file error for snapshot {} by user {}: {}''
           [Val dt, Val uid, Exc (OSError m)]
           (logging_debug ''Received Snapshot from user {}, Snapshot {}'' [Val uid, Val dt] w)))
   \<and> (getitem snap ''color_image_path'' = Inr path
        \<and> getitem snap ''color_image_width'' = Inr wd
        \<and> getitem snap ''color_image_height'' = Inr h
        \<and> io_fault E (Open path ''rb'') = None
        \<and> io_fault E (Mkdir (PROCESSED_DIRECTORY E)) = None
        \<and> io_fault E (Frombytes wd h (file_content E path)) = None
        \<and> io_fault E (Save (PROCESSED_DIRECTORY E @ ''/'' @ py_str E uid @ ''_'' @ py_str E dt @ ''_color.jpg'')
              wd h (file_content E path)) = Some (OSError m) \<longrightarrow>
      fst (color_image E (JsonText snap) w) = Inr None
      \<and> logged (snd (color_image E (JsonText snap) w)) = logged w @
          [(DEBUG, ''Received Snapshot from user {}, Snapshot {}'', [Val uid, Val dt]),
           (ERROR, ''Error: file error: {}'', [Exc (OSError m)])])
   \<and> (getitem snap ''depth_image_path'' = Inr dpath
        \<and> getitem snap ''depth_image_width'' = Inr dwd
        \<and> getitem snap ''depth_image_height'' = Inr dh
        \<and> io_fault E (Open dpath ''r'') = None
        \<and> file_content E dpath = JsonText data_json
        \<and> getitem data_json ''data'' = Inr image_array
        \<and> reshape image_array dwd dh = Inr rows
        \<and> io_fault E (Mkdir (PROCESSED_DIRECTORY E)) = None
        \<and> io_fault E (Imshow rows) = None
        \<and> io_fault E (Savefig (PROCESSED_DIRECTORY E @ ''/'' @ py_str E uid @ ''_'' @ py_str E dt @ ''_depth.jpg'')
              rows) = Some (OSError m) \<longrightarrow>
      fst (depth_image E (JsonText snap) w) = Inr None
      \<and> logged (snd (depth_image E (JsonText snap) w)) = logged w @
          [(DEBUG, ''Received Snapshot from user {}, Snapshot {}'', [Val uid, Val dt]),
           (ERROR, ''Error: file error for snapshot {} by user {}: {}'',
            [Val dt, Val uid, Exc (OSError m)])])"
proof (intro conjI impI; (elim conjE)?)
  show "color_image E (JsonText snap) w =
        (Inr None, logging_error ''Error: file error: {}'' [Exc (OSError m)] w2)"
    if "color_image_try E snap
        (logging_debug ''Received Snapshot from user {}, Snapshot {}'' [Val uid, Val dt] w)
        = (Inl (OSError m), w2)"
    using assms that by (rule color_image_OSError)
  show "depth_image E (JsonText snap) w =
        (Inr None,
         logging_error ''Error: file error for snapshot {} by user {}: {}''
           [Val dt, Val uid, Exc (OSError m)] w3)"
    if "depth_image_try E snap
        (logging_debug ''Received Snapshot from user {}, Snapshot {}'' [Val uid, Val dt] w)
        = (Inl (OSError m), w3)"
    using assms that by (rule depth_image_OSError)
  show "color_image E (JsonText snap) w =
        (Inr None,
         logging_error ''Error: file error: {}'' [Exc (OSError m)]
           (logging_debug ''Received Snapshot from user {}, Snapshot {}'' [Val uid, Val dt] w))"
    if "getitem snap ''color_image_path'' = Inr path"
      and "io_fault E (Open path ''rb'') = Some (OSError m)"
    using assms color_image_try_open_fails[OF that] by (rule color_image_OSError)
  show "depth_image E (JsonText snap) w =
        (Inr None,
         logging_error ''Error: file error for snapshot {} by user {}: {}''
           [Val dt, Val uid, Exc (OSError m)]
           (logging_debug ''Received Snapshot from user {}, Snapshot {}'' [Val uid, Val dt] w))"
    if "getitem snap ''depth_image_path'' = Inr dpath"
      and "io_fault E (Open dpath ''r'') = Some (OSError m)"
    using assms depth_image_try_open_fails[OF that] by (rule depth_image_OSError)
next
  assume a: "getitem snap ''color_image_path'' = Inr path"
    "getitem snap ''color_image_width'' = Inr wd"
    "getitem snap ''color_image_height'' = Inr h"
    "io_fault E (Open path ''rb'') = None"
    "io_fault E (Mkdir (PROCESSED_DIRECTORY E)) = None"
    "io_fault E (Frombytes wd h (file_content E path)) = None"
    "io_fault E (Save (PROCESSED_DIRECTORY E @ ''/'' @ py_str E uid @ ''_'' @ py_str E dt @ ''_color.jpg'')
              wd h (file_content E path)) = Some (OSError m)"
  have r: "color_image E (JsonText snap) w =
      (Inr None, logging_error ''Error: file error: {}'' [Exc (OSError m)]
        ((logging_debug ''Received Snapshot from user {}, Snapshot {}'' [Val uid, Val dt] w)
          \<lparr>io_calls := io_calls (logging_debug ''Received Snapshot from user {}, Snapshot {}'' [Val uid, Val dt] w) @
            [Open path ''rb'', Mkdir (PROCESSED_DIRECTORY E), Frombytes wd h (file_content E path)]\<rparr>))"
    using assms color_image_try_save_fails[OF assms a] by (rule color_image_OSError)
  show "fst (color_image E (JsonText snap) w) = Inr None"
    by (simp add: r)
  show "logged (snd (color_image E (JsonText snap) w)) = logged w @
          [(DEBUG, ''Received Snapshot from user {}, Snapshot {}'', [Val uid, Val dt]),
           (ERROR, ''Error: file error: {}'', [Exc (OSError m)])]"
    by (simp add: r logging_error_def logging_debug_def)
next
  assume a: "getitem snap ''depth_image_path'' = Inr dpath"
    "getitem snap ''depth_image_width'' = Inr dwd"
    "getitem snap ''depth_image_height'' = Inr dh"
    "io_fault E (Open dpath ''r'') = None"
    "file_content E dpath = JsonText data_json"
    "getitem data_json ''data'' = Inr image_array"
    "reshape image_array dwd dh = Inr rows"
    "io_fault E (Mkdir (PROCESSED_DIRECTORY E)) = None"
    "io_fault E (Imshow rows) = None"
    "io_fault E (Savefig (PROCESSED_DIRECTORY E @ ''/'' @ py_str E uid @ ''_'' @ py_str E dt @ ''_depth.jpg'')
              rows) = Some (OSError m)"
  have r: "depth_image E (JsonText snap) w =
      (Inr None, logging_error ''Error: file error for snapshot {} by user {}: {}''
           [Val dt, Val uid, Exc (OSError m)]
        ((logging_debug ''Received Snapshot from user {}, Snapshot {}'' [Val uid, Val dt] w)
          \<lparr>io_calls := io_calls (logging_debug ''Received Snapshot from user {}, Snapshot {}'' [Val uid, Val dt] w) @
            [Open dpath ''r'', Mkdir (PROCESSED_DIRECTORY E), Imshow rows]\<rparr>))"
    using assms depth_image_try_savefig_fails[OF assms a] by (rule depth_image_OSError)
  show "fst (depth_image E (JsonText snap) w) = Inr None"
    by (simp add: r)
  show "logged (snd (depth_image E (JsonText snap) w)) = logged w @
          [(DEBUG, ''Received Snapshot from user {}, Snapshot {}'', [Val uid, Val dt]),
           (ERROR, ''Error: file error for snapshot {} by user {}: {}'',
            [Val dt, Val uid, Exc (OSError m)])]"
    by (simp add: r logging_error_def logging_debug_def)
qed

theorem io_failure_rejects_witness:
  "getitem color_snapshot ''user_id'' = Inr (JStr ''u1'')
   \<and> io_fault full_disk_env
        (Save ''/cortex/files/processed/u1_d1_color.jpg'' (JInt 2) (JInt 2)
           (file_content full_disk_env (JStr ''/raw/color.bin'')))
       = Some (OSError ''No space left on device'')
   \<and> fst (color_image full_disk_env (JsonText color_snapshot) empty_world) = Inr None
   \<and> logged (snd (color_image full_disk_env (JsonText color_snapshot) empty_world)) =
        [(DEBUG, ''Received Snapshot from user {}, Snapshot {}'', [Val (JStr ''u1''), Val (JStr ''d1'')]),
         (ERROR, ''Error: file error: {}'', [Exc (OSError ''No space left on device'')])]
   \<and> io_fault no_files_env (Open (JStr ''/raw/depth.json'') ''r'')
       = Some (OSError ''No such file or directory'')
   \<and> depth_image no_files_env (JsonText depth_snapshot) empty_world =
        (Inr None,
         logging_error ''Error: file error for snapshot {} by user {}: {}''
           [Val (JStr ''d1''), Val (JStr ''u1''), Exc (OSError ''No such file or directory'')]
           (logging_debug ''Received Snapshot from user {}, Snapshot {}''
              [Val (JStr ''u1''), Val (JStr ''d1'')] empty_world))
   \<and> io_fault full_disk_env
        (Savefig ''/cortex/files/processed/u1_d1_depth.jpg'' [JArr [JInt 1, JInt 2], JArr [JInt 4, JInt 5]])
       = Some (OSError ''No space left on device'')
   \<and> fst (depth_image full_disk_env (JsonText depth_snapshot) empty_world) = Inr None
   \<and> logged (snd (depth_image full_disk_env (JsonText depth_snapshot) empty_world)) =
        [(DEBUG, ''Received Snapshot from user {}, Snapshot {}'', [Val (JStr ''u1''), Val (JStr ''d1'')]),
         (ERROR, ''Error: file error for snapshot {} by user {}: {}'',
          [Val (JStr ''d1''), Val (JStr ''u1''), Exc (OSError ''No space left on device'')])]"
proof -
  have c: "getitem color_snapshot ''user_id'' = Inr (JStr ''u1'')"
    "getitem color_snapshot ''datetime'' = Inr (JStr ''d1'')"
    "getitem color_snapshot ''color_image_path'' = Inr (JStr ''/raw/color.bin'')"
    "getitem color_snapshot ''color_image_width'' = Inr (JInt 2)"
    "getitem color_snapshot ''color_image_height'' = Inr (JInt 2)"
    by (simp_all add: color_snapshot_def getitem_def)
  have d: "getitem depth_snapshot ''user_id'' = Inr (JStr ''u1'')"
    "getitem depth_snapshot ''datetime'' = Inr (JStr ''d1'')"
    "getitem depth_snapshot ''depth_image_path'' = Inr (JStr ''/raw/depth.json'')"
    "getitem depth_snapshot ''depth_image_width'' = Inr (JInt 3)"
    "getitem depth_snapshot ''depth_image_height'' = Inr (JInt 2)"
    by (simp_all add: depth_snapshot_def getitem_def)
  have full: "PROCESSED_DIRECTORY full_disk_env = ''/cortex/files/processed''"
    "py_str full_disk_env (JStr ''u1'') = ''u1''" "py_str full_disk_env (JStr ''d1'') = ''d1''"
    "file_content full_disk_env (JStr ''/raw/depth.json'') =
       JsonText (JObj [(''data'', JArr [JInt 1, JInt 2, JInt 3, JInt 4, JInt 5, JInt 6])])"
    "io_fault full_disk_env (Open p mode) = None"
    "io_fault full_disk_env (Mkdir dir) = None"
    "io_fault full_disk_env (Frombytes a b bs) = None"
    "io_fault full_disk_env (Imshow rs) = None"
    "io_fault full_disk_env (Save f a b bs) = Some (OSError ''No space left on device'')"
    "io_fault full_disk_env (Savefig f rs) = Some (OSError ''No space left on device'')"
    for p mode dir a b bs rs f
    by (simp_all add: full_disk_env_def quiet_env_def)
  have nofile: "io_fault no_files_env (Open (JStr ''/raw/depth.json'') ''r'')
      = Some (OSError ''No such file or directory'')"
    by (simp add: no_files_env_def)
  have data: "getitem (JObj [(''data'', JArr [JInt 1, JInt 2, JInt 3, JInt 4, JInt 5, JInt 6])]) ''data''
      = Inr (JArr [JInt 1, JInt 2, JInt 3, JInt 4, JInt 5, JInt 6])"
    by (simp add: getitem_def)
  have rows: "reshape (JArr [JInt 1, JInt 2, JInt 3, JInt 4, JInt 5, JInt 6]) (JInt 3) (JInt 2)
      = Inr [JArr [JInt 1, JInt 2], JArr [JInt 4, JInt 5]]"
    by (simp add: reshape_def row_def py_slice_def upt_rec)
  have empty: "logged empty_world = []"
    by (simp add: empty_world_def)
  note color = io_failure_rejects[OF c(1,2), of full_disk_env empty_world
      "''No space left on device''" _ _ "JStr ''/raw/color.bin''" _ "JInt 2" "JInt 2",
      THEN conjunct2, THEN conjunct2, THEN conjunct2, THEN conjunct2, THEN conjunct1]
  have C: "fst (color_image full_disk_env (JsonText color_snapshot) empty_world) = Inr None
    \<and> logged (snd (color_image full_disk_env (JsonText color_snapshot) empty_world)) =
        [(DEBUG, ''Received Snapshot from user {}, Snapshot {}'', [Val (JStr ''u1''), Val (JStr ''d1'')]),
         (ERROR, ''Error: file error: {}'', [Exc (OSError ''No space left on device'')])]"
    using color c(3,4,5) by (simp add: full empty)
  note dread = io_failure_rejects[OF d(1,2), of no_files_env empty_world
      "''No such file or directory''" _ _ _ "JStr ''/raw/depth.json''",
      THEN conjunct2, THEN conjunct2, THEN conjunct2, THEN conjunct1]
  have D: "depth_image no_files_env (JsonText depth_snapshot) empty_world =
        (Inr None,
         logging_error ''Error: file error for snapshot {} by user {}: {}''
           [Val (JStr ''d1''), Val (JStr ''u1''), Exc (OSError ''No such file or directory'')]
           (logging_debug ''Received Snapshot from user {}, Snapshot {}''
              [Val (JStr ''u1''), Val (JStr ''d1'')] empty_world))"
    using dread d(3) nofile by simp
  note dwrite = io_failure_rejects[OF d(1,2), of full_disk_env empty_world
      "''No space left on device''" _ _ _ "JStr ''/raw/depth.json''" _ _ "JInt 3" "JInt 2"
      "JObj [(''data'', JArr [JInt 1, JInt 2, JInt 3, JInt 4, JInt 5, JInt 6])]"
      "JArr [JInt 1, JInt 2, JInt 3, JInt 4, JInt 5, JInt 6]"
      "[JArr [JInt 1, JInt 2], JArr [JInt 4, JInt 5]]",
      THEN conjunct2, THEN conjunct2, THEN conjunct2, THEN conjunct2, THEN conjunct2]
  have F: "fst (depth_image full_disk_env (JsonText depth_snapshot) empty_world) = Inr None
   \<and> logged (snd (depth_image full_disk_env (JsonText depth_snapshot) empty_world)) =
        [(DEBUG, ''Received Snapshot from user {}, Snapshot {}'', [Val (JStr ''u1''), Val (JStr ''d1'')]),
         (ERROR, ''Error: file error for snapshot {} by user {}: {}'',
          [Val (JStr ''d1''), Val (JStr ''u1''), Exc (OSError ''No space left on device'')])]"
    using dwrite d(3,4,5) data rows by (simp add: full empty)
  show ?thesis
    using c(1) C nofile D F by (simp add: full)
qed

end
